theory Spec2Isabelle
  imports Main "HOL-Library.Word"
begin

section \<open>Go values used by both halves of the protocol bridge\<close>

text \<open>
  A Go \<^verbatim>\<open>error\<close> of a library or of the backend is kept by its message. The wire messages
  have pointer fields (\<^verbatim>\<open>*uint64\<close>, \<^verbatim>\<open>*string\<close>): a nil pointer is \<open>None\<close>, and
  the generated getters return the zero value for nil.
\<close>

type_synonym err = string
type_synonym uint32 = "32 word"
type_synonym uint64 = "64 word"

definition GetUint64 :: "uint64 option \<Rightarrow> uint64" where
  "GetUint64 p = (case p of None \<Rightarrow> 0 | Some v \<Rightarrow> v)"

definition GetUint32 :: "uint32 option \<Rightarrow> uint32" where
  "GetUint32 p = (case p of None \<Rightarrow> 0 | Some v \<Rightarrow> v)"

definition GetString :: "string option \<Rightarrow> string" where
  "GetString p = (case p of None \<Rightarrow> [] | Some v \<Rightarrow> v)"

definition GetBool :: "bool option \<Rightarrow> bool" where
  "GetBool p = (case p of None \<Rightarrow> False | Some v \<Rightarrow> v)"

section \<open>Server: request handling (server/request\_handling.go)\<close>

subsection \<open>Domain values of the backend\<close>

record BandwidthLimits =
  RateInBytesPerSecond :: uint64
  BurstRateInBytesPerSecond :: uint64

record MemoryLimits =
  LimitInBytes :: uint64

record CPULimits =
  LimitInShares :: uint64

record DiskLimits =
  BlockSoft :: uint64
  BlockHard :: uint64
  InodeSoft :: uint64
  InodeHard :: uint64
  ByteSoft :: uint64
  ByteHard :: uint64

subsection \<open>Wire messages of the limit operations\<close>

record LimitBandwidthRequest =
  LimitBandwidth_Handle :: "string option"
  LimitBandwidth_Rate :: "uint64 option"
  LimitBandwidth_Burst :: "uint64 option"

record LimitBandwidthResponse =
  LimitBandwidthResponse_Rate :: "uint64 option"
  LimitBandwidthResponse_Burst :: "uint64 option"

record LimitMemoryRequest =
  LimitMemory_Handle :: "string option"
  LimitMemory_LimitInBytes :: "uint64 option"

record LimitMemoryResponse =
  LimitMemoryResponse_LimitInBytes :: "uint64 option"

record LimitCpuRequest =
  LimitCpu_Handle :: "string option"
  LimitCpu_LimitInShares :: "uint64 option"

record LimitCpuResponse =
  LimitCpuResponse_LimitInShares :: "uint64 option"

record LimitDiskRequest =
  LimitDisk_Handle :: "string option"
  LimitDisk_BlockSoft :: "uint64 option"
  LimitDisk_BlockHard :: "uint64 option"
  LimitDisk_InodeSoft :: "uint64 option"
  LimitDisk_InodeHard :: "uint64 option"
  LimitDisk_ByteSoft :: "uint64 option"
  LimitDisk_ByteHard :: "uint64 option"
  LimitDisk_Block :: "uint64 option"
  LimitDisk_BlockLimit :: "uint64 option"
  LimitDisk_Inode :: "uint64 option"
  LimitDisk_InodeLimit :: "uint64 option"
  LimitDisk_Byte :: "uint64 option"
  LimitDisk_ByteLimit :: "uint64 option"

record LimitDiskResponse =
  LimitDiskResponse_BlockSoft :: "uint64 option"
  LimitDiskResponse_BlockHard :: "uint64 option"
  LimitDiskResponse_InodeSoft :: "uint64 option"
  LimitDiskResponse_InodeHard :: "uint64 option"
  LimitDiskResponse_ByteSoft :: "uint64 option"
  LimitDiskResponse_ByteHard :: "uint64 option"


subsection \<open>Process events, process payloads and the other wire messages\<close>

datatype ProcessStreamSource =
  ProcessStreamSourceStdout | ProcessStreamSourceStderr | ProcessStreamSourceStdin
  | ProcessStreamSourceOther

record ProcessStream =
  Source :: ProcessStreamSource
  Data :: string
  ExitStatus :: "uint32 option"

text \<open>
  \<open>ProcessPayload_zero\<close> is the zero value of the enumeration, which the variable
  \<^verbatim>\<open>payloadSource\<close> keeps when no case of the switch matches.
\<close>

datatype ProcessPayload_Source =
  ProcessPayload_zero | ProcessPayload_stdout | ProcessPayload_stderr | ProcessPayload_stdin

record ProcessPayload =
  Payload_ProcessId :: "uint32 option"
  Payload_Source :: "ProcessPayload_Source option"
  Payload_Data :: "string option"
  Payload_ExitStatus :: "uint32 option"

record ResourceLimits =
  As :: "uint64 option"
  Core :: "uint64 option"
  Cpu :: "uint64 option"
  Data_limit :: "uint64 option"
  Fsize :: "uint64 option"
  Locks :: "uint64 option"
  Memlock :: "uint64 option"
  Msgqueue :: "uint64 option"
  Nice :: "uint64 option"
  Nofile :: "uint64 option"
  Nproc :: "uint64 option"
  Rss_limit :: "uint64 option"
  Rtprio :: "uint64 option"
  Sigpending :: "uint64 option"
  Stack :: "uint64 option"

record ProcessSpec =
  Script :: string
  Privileged :: bool
  EnvironmentVariables :: "(string \<times> string) list"
  Limits :: ResourceLimits

record StopRequest =
  Stop_Handle :: "string option"
  Stop_Kill :: "bool option"
  Stop_Background :: "bool option"

record CopyInRequest =
  CopyIn_Handle :: "string option"
  CopyIn_SrcPath :: "string option"
  CopyIn_DstPath :: "string option"

record CopyOutRequest =
  CopyOut_Handle :: "string option"
  CopyOut_SrcPath :: "string option"
  CopyOut_DstPath :: "string option"
  CopyOut_Owner :: "string option"

record NetInRequest =
  NetIn_Handle :: "string option"
  NetIn_HostPort :: "uint32 option"
  NetIn_ContainerPort :: "uint32 option"

record NetInResponse =
  NetInResponse_HostPort :: "uint32 option"
  NetInResponse_ContainerPort :: "uint32 option"

record NetOutRequest =
  NetOut_Handle :: "string option"
  NetOut_Network :: "string option"
  NetOut_Port :: "uint32 option"

record RunRequest =
  Run_Handle :: "string option"
  Run_Script :: "string option"
  Run_Privileged :: "bool option"
  Run_Env :: "(string option \<times> string option) list"
  Run_Rlimits :: "ResourceLimits option"

record AttachRequest =
  Attach_Handle :: "string option"
  Attach_ProcessId :: "uint32 option"

record InfoRequest =
  Info_Handle :: "string option"


subsection \<open>Container info: the domain value and its wire message\<close>

record ContainerMemoryStat =
  Cache :: uint64
  Rss :: uint64
  MappedFile :: uint64
  Pgpgin :: uint64
  Pgpgout :: uint64
  Swap :: uint64
  Pgfault :: uint64
  Pgmajfault :: uint64
  InactiveAnon :: uint64
  ActiveAnon :: uint64
  InactiveFile :: uint64
  ActiveFile :: uint64
  Unevictable :: uint64
  HierarchicalMemoryLimit :: uint64
  HierarchicalMemswLimit :: uint64
  TotalCache :: uint64
  TotalRss :: uint64
  TotalMappedFile :: uint64
  TotalPgpgin :: uint64
  TotalPgpgout :: uint64
  TotalSwap :: uint64
  TotalPgfault :: uint64
  TotalPgmajfault :: uint64
  TotalInactiveAnon :: uint64
  TotalActiveAnon :: uint64
  TotalInactiveFile :: uint64
  TotalActiveFile :: uint64
  TotalUnevictable :: uint64

record ContainerCPUStat =
  Usage :: uint64
  User :: uint64
  System :: uint64

record ContainerDiskStat =
  BytesUsed :: uint64
  InodesUsed :: uint64

record ContainerBandwidthStat =
  InRate :: uint64
  InBurst :: uint64
  OutRate :: uint64
  OutBurst :: uint64

record PortMapping =
  HostPort :: uint32
  ContainerPort :: uint32

record ContainerInfo =
  State :: string
  Events :: "string list"
  HostIP :: string
  ContainerIP :: string
  ExternalIP :: string
  ContainerPath :: string
  ProcessIDs :: "uint32 list"
  Properties :: "string \<rightharpoonup> string"
  BandwidthStat :: ContainerBandwidthStat
  CPUStat :: ContainerCPUStat
  DiskStat :: ContainerDiskStat
  MemoryStat :: ContainerMemoryStat
  MappedPorts :: "PortMapping list"

record InfoResponse_MemoryStat =
  MemoryStat_Cache :: "uint64 option"
  MemoryStat_Rss :: "uint64 option"
  MemoryStat_MappedFile :: "uint64 option"
  MemoryStat_Pgpgin :: "uint64 option"
  MemoryStat_Pgpgout :: "uint64 option"
  MemoryStat_Swap :: "uint64 option"
  MemoryStat_Pgfault :: "uint64 option"
  MemoryStat_Pgmajfault :: "uint64 option"
  MemoryStat_InactiveAnon :: "uint64 option"
  MemoryStat_ActiveAnon :: "uint64 option"
  MemoryStat_InactiveFile :: "uint64 option"
  MemoryStat_ActiveFile :: "uint64 option"
  MemoryStat_Unevictable :: "uint64 option"
  MemoryStat_HierarchicalMemoryLimit :: "uint64 option"
  MemoryStat_HierarchicalMemswLimit :: "uint64 option"
  MemoryStat_TotalCache :: "uint64 option"
  MemoryStat_TotalRss :: "uint64 option"
  MemoryStat_TotalMappedFile :: "uint64 option"
  MemoryStat_TotalPgpgin :: "uint64 option"
  MemoryStat_TotalPgpgout :: "uint64 option"
  MemoryStat_TotalSwap :: "uint64 option"
  MemoryStat_TotalPgfault :: "uint64 option"
  MemoryStat_TotalPgmajfault :: "uint64 option"
  MemoryStat_TotalInactiveAnon :: "uint64 option"
  MemoryStat_TotalActiveAnon :: "uint64 option"
  MemoryStat_TotalInactiveFile :: "uint64 option"
  MemoryStat_TotalActiveFile :: "uint64 option"
  MemoryStat_TotalUnevictable :: "uint64 option"

record InfoResponse_CpuStat =
  CpuStat_Usage :: "uint64 option"
  CpuStat_User :: "uint64 option"
  CpuStat_System :: "uint64 option"

record InfoResponse_DiskStat =
  DiskStat_BytesUsed :: "uint64 option"
  DiskStat_InodesUsed :: "uint64 option"

record InfoResponse_BandwidthStat =
  BandwidthStat_InRate :: "uint64 option"
  BandwidthStat_InBurst :: "uint64 option"
  BandwidthStat_OutRate :: "uint64 option"
  BandwidthStat_OutBurst :: "uint64 option"

record Property =
  Key :: "string option"
  Value :: "string option"

record InfoResponse_PortMapping =
  PortMapping_HostPort :: "uint32 option"
  PortMapping_ContainerPort :: "uint32 option"

record InfoResponse =
  InfoResponse_State :: "string option"
  InfoResponse_Events :: "string list"
  InfoResponse_HostIp :: "string option"
  InfoResponse_ContainerIp :: "string option"
  InfoResponse_ExternalIp :: "string option"
  InfoResponse_ContainerPath :: "string option"
  InfoResponse_ProcessIds :: "uint64 list"
  InfoResponse_Properties :: "Property list"
  InfoResponse_MemoryStat :: "InfoResponse_MemoryStat option"
  InfoResponse_CpuStat :: "InfoResponse_CpuStat option"
  InfoResponse_DiskStat :: "InfoResponse_DiskStat option"
  InfoResponse_BandwidthStat :: "InfoResponse_BandwidthStat option"
  InfoResponse_MappedPorts :: "InfoResponse_PortMapping list"


datatype Message =
    StopResponse
  | CopyInResponse
  | CopyOutResponse
  | NetOutResponse
  | LimitBandwidthResponseMsg LimitBandwidthResponse
  | LimitMemoryResponseMsg LimitMemoryResponse
  | LimitDiskResponseMsg LimitDiskResponse
  | LimitCpuResponseMsg LimitCpuResponse
  | NetInResponseMsg NetInResponse
  | ProcessPayloadMsg ProcessPayload
  | InfoResponseMsg InfoResponse

subsection \<open>The backend, the eviction scheduler and the server's state\<close>

text \<open>
  The backend and its containers are external collaborators. A call of one of their
  methods returns a value, returns an error, or panics; it may change the backend's
  state \<open>'b\<close>. \<open>Handle\<close> and \<open>Properties\<close> return no error: \<open>Handle\<close> is read as a
  field of the container reference \<open>'c\<close>, and \<open>Properties\<close> yields the entries of the
  container's property map in the order the \<^verbatim>\<open>range\<close> loop visits them. The event channel
  of a process is the list of events it delivers before it is closed.
\<close>

datatype 'a ret = Ok 'a | Err err | Panic

record ('b, 'c) backend =
  Lookup :: "string \<Rightarrow> 'b \<Rightarrow> 'c ret \<times> 'b"
  Handle :: "'c \<Rightarrow> string"
  ContainerProperties :: "'c \<Rightarrow> 'b \<Rightarrow> (string \<times> string) list"
  Stop :: "'c \<Rightarrow> bool \<Rightarrow> 'b \<Rightarrow> unit ret \<times> 'b"
  CopyIn :: "'c \<Rightarrow> string \<Rightarrow> string \<Rightarrow> 'b \<Rightarrow> unit ret \<times> 'b"
  CopyOut :: "'c \<Rightarrow> string \<Rightarrow> string \<Rightarrow> string \<Rightarrow> 'b \<Rightarrow> unit ret \<times> 'b"
  LimitBandwidth :: "'c \<Rightarrow> BandwidthLimits \<Rightarrow> 'b \<Rightarrow> unit ret \<times> 'b"
  CurrentBandwidthLimits :: "'c \<Rightarrow> 'b \<Rightarrow> BandwidthLimits ret \<times> 'b"
  LimitMemory :: "'c \<Rightarrow> MemoryLimits \<Rightarrow> 'b \<Rightarrow> unit ret \<times> 'b"
  CurrentMemoryLimits :: "'c \<Rightarrow> 'b \<Rightarrow> MemoryLimits ret \<times> 'b"
  LimitDisk :: "'c \<Rightarrow> DiskLimits \<Rightarrow> 'b \<Rightarrow> unit ret \<times> 'b"
  CurrentDiskLimits :: "'c \<Rightarrow> 'b \<Rightarrow> DiskLimits ret \<times> 'b"
  LimitCPU :: "'c \<Rightarrow> CPULimits \<Rightarrow> 'b \<Rightarrow> unit ret \<times> 'b"
  CurrentCPULimits :: "'c \<Rightarrow> 'b \<Rightarrow> CPULimits ret \<times> 'b"
  NetIn :: "'c \<Rightarrow> uint32 \<Rightarrow> uint32 \<Rightarrow> 'b \<Rightarrow> (uint32 \<times> uint32) ret \<times> 'b"
  NetOut :: "'c \<Rightarrow> string \<Rightarrow> uint32 \<Rightarrow> 'b \<Rightarrow> unit ret \<times> 'b"
  Run :: "'c \<Rightarrow> ProcessSpec \<Rightarrow> 'b \<Rightarrow> (uint32 \<times> ProcessStream list) ret \<times> 'b"
  Attach :: "'c \<Rightarrow> uint32 \<Rightarrow> 'b \<Rightarrow> ProcessStream list ret \<times> 'b"
  Info :: "'c \<Rightarrow> 'b \<Rightarrow> ContainerInfo ret \<times> 'b"

text \<open>
  Every call the server makes to the backend, to a container (named by its handle) or
  to the eviction scheduler is recorded, in order, with its arguments.
  \<^verbatim>\<open>container.Handle()\<close> is not recorded.
\<close>

datatype call =
    Backend_Lookup string
  | Bomberman_Pause string
  | Bomberman_Unpause string
  | Container_Properties string
  | Container_Stop string bool
  | Container_CopyIn string string string
  | Container_CopyOut string string string string
  | Container_LimitBandwidth string BandwidthLimits
  | Container_CurrentBandwidthLimits string
  | Container_LimitMemory string MemoryLimits
  | Container_CurrentMemoryLimits string
  | Container_LimitDisk string DiskLimits
  | Container_CurrentDiskLimits string
  | Container_LimitCPU string CPULimits
  | Container_CurrentCPULimits string
  | Container_NetIn string uint32 uint32
  | Container_NetOut string string uint32
  | Container_Run string ProcessSpec
  | Container_Attach string uint32
  | Container_Info string
  | Go_statement call

text \<open>
  The server's state: the backend's state, the calls made so far, and the messages
  written to the connection. A \<^verbatim>\<open>go\<close> statement is recorded with the call it starts:
  the call runs later in a goroutine of its own, the handler does not wait for it, and
  what it returns is dropped.
\<close>

record 'b server =
  backend_state :: 'b
  calls :: "call list"
  conn :: "ProcessPayload list"

text \<open>
  What a handler hands back: the pair \<^verbatim>\<open>(proto.Message, error)\<close> it returns, either of
  which may be nil, or a panic that leaves the handler.
\<close>

datatype outcome = Returned "Message option" "err option" | Panicked

definition invoke :: "call \<Rightarrow> ('b \<Rightarrow> 'a ret \<times> 'b) \<Rightarrow> 'b server \<Rightarrow> 'a ret \<times> 'b server" where
  "invoke c f s =
     (case f (backend_state s) of
        (r, b') \<Rightarrow> (r, s\<lparr>backend_state := b', calls := calls s @ [c]\<rparr>))"

definition go :: "call \<Rightarrow> 'b server \<Rightarrow> 'b server" where
  "go c s = s\<lparr>calls := calls s @ [Go_statement c]\<rparr>"

definition bomberman_Pause :: "string \<Rightarrow> 'b server \<Rightarrow> 'b server" where
  "bomberman_Pause h s = s\<lparr>calls := calls s @ [Bomberman_Pause h]\<rparr>"

definition bomberman_Unpause :: "string \<Rightarrow> 'b server \<Rightarrow> 'b server" where
  "bomberman_Unpause h s = s\<lparr>calls := calls s @ [Bomberman_Unpause h]\<rparr>"

definition WriteTo :: "ProcessPayload \<Rightarrow> 'b server \<Rightarrow> 'b server" where
  "WriteTo m s = s\<lparr>conn := conn s @ [m]\<rparr>"

text \<open>
  \<^verbatim>\<open>x, err := call; if err != nil { return nil, err }\<close>: the rest of the handler runs on
  the value; an error is returned as it is; a panic leaves the handler.
\<close>

definition or_return ::
  "'a ret \<times> 'b server \<Rightarrow> ('a \<Rightarrow> 'b server \<Rightarrow> outcome \<times> 'b server) \<Rightarrow> outcome \<times> 'b server" where
  "or_return rs k =
     (case rs of
        (Ok v, s) \<Rightarrow> k v s
      | (Err e, s) \<Rightarrow> (Returned None (Some e), s)
      | (Panic, s) \<Rightarrow> (Panicked, s))"

text \<open>
  \<^verbatim>\<open>s.bomberman.Pause(h); defer s.bomberman.Unpause(h); body\<close>: the deferred call runs
  when the body returns and when it panics.
\<close>

definition paused ::
  "string \<Rightarrow> ('b server \<Rightarrow> outcome \<times> 'b server) \<Rightarrow> 'b server \<Rightarrow> outcome \<times> 'b server" where
  "paused h body s =
     (case body (bomberman_Pause h s) of (r, s') \<Rightarrow> (r, bomberman_Unpause h s'))"


subsection \<open>The handlers\<close>

definition handleCopyOut ::
  "('b, 'c) backend \<Rightarrow> CopyOutRequest \<Rightarrow> 'b server \<Rightarrow> outcome \<times> 'b server" where
  "handleCopyOut b copyOut s =
     (let handle = GetString (CopyOut_Handle copyOut);
          srcPath = GetString (CopyOut_SrcPath copyOut);
          dstPath = GetString (CopyOut_DstPath copyOut);
          owner = GetString (CopyOut_Owner copyOut)
      in or_return (invoke (Backend_Lookup handle) (Lookup b handle) s) (\<lambda>container.
           paused (Handle b container) (\<lambda>s.
             or_return (invoke (Container_CopyOut (Handle b container) srcPath dstPath owner)
                          (CopyOut b container srcPath dstPath owner) s) (\<lambda>_ s.
               (Returned (Some CopyOutResponse) None, s)))))"

definition handleStop ::
  "('b, 'c) backend \<Rightarrow> StopRequest \<Rightarrow> 'b server \<Rightarrow> outcome \<times> 'b server" where
  "handleStop b request s =
     (let handle = GetString (Stop_Handle request);
          kill = GetBool (Stop_Kill request);
          background = GetBool (Stop_Background request)
      in or_return (invoke (Backend_Lookup handle) (Lookup b handle) s) (\<lambda>container.
           paused (Handle b container) (\<lambda>s.
             if background
             then (Returned (Some StopResponse) None, go (Container_Stop (Handle b container) kill) s)
             else or_return (invoke (Container_Stop (Handle b container) kill)
                               (Stop b container kill) s) (\<lambda>_ s.
                    (Returned (Some StopResponse) None, s)))))"

definition handleCopyIn ::
  "('b, 'c) backend \<Rightarrow> CopyInRequest \<Rightarrow> 'b server \<Rightarrow> outcome \<times> 'b server" where
  "handleCopyIn b copyIn s =
     (let handle = GetString (CopyIn_Handle copyIn);
          srcPath = GetString (CopyIn_SrcPath copyIn);
          dstPath = GetString (CopyIn_DstPath copyIn)
      in or_return (invoke (Backend_Lookup handle) (Lookup b handle) s) (\<lambda>container.
           paused (Handle b container) (\<lambda>s.
             or_return (invoke (Container_CopyIn (Handle b container) srcPath dstPath)
                          (CopyIn b container srcPath dstPath) s) (\<lambda>_ s.
               (Returned (Some CopyInResponse) None, s)))))"

definition handleLimitBandwidth ::
  "('b, 'c) backend \<Rightarrow> LimitBandwidthRequest \<Rightarrow> 'b server \<Rightarrow> outcome \<times> 'b server" where
  "handleLimitBandwidth b request s =
     (let handle = GetString (LimitBandwidth_Handle request);
          rate = GetUint64 (LimitBandwidth_Rate request);
          burst = GetUint64 (LimitBandwidth_Burst request)
      in or_return (invoke (Backend_Lookup handle) (Lookup b handle) s) (\<lambda>container.
           paused (Handle b container) (\<lambda>s.
             or_return
               (let limits = \<lparr>RateInBytesPerSecond = rate, BurstRateInBytesPerSecond = burst\<rparr>
                in invoke (Container_LimitBandwidth (Handle b container) limits)
                     (LimitBandwidth b container limits) s) (\<lambda>_ s.
             or_return (invoke (Container_CurrentBandwidthLimits (Handle b container))
                          (CurrentBandwidthLimits b container) s) (\<lambda>limits s.
               (Returned (Some (LimitBandwidthResponseMsg
                    \<lparr>LimitBandwidthResponse_Rate = Some (RateInBytesPerSecond limits),
                     LimitBandwidthResponse_Burst = Some (BurstRateInBytesPerSecond limits)\<rparr>))
                  None, s))))))"

definition handleLimitMemory ::
  "('b, 'c) backend \<Rightarrow> LimitMemoryRequest \<Rightarrow> 'b server \<Rightarrow> outcome \<times> 'b server" where
  "handleLimitMemory b request s =
     (let handle = GetString (LimitMemory_Handle request);
          limitInBytes = GetUint64 (LimitMemory_LimitInBytes request)
      in or_return (invoke (Backend_Lookup handle) (Lookup b handle) s) (\<lambda>container.
           paused (Handle b container) (\<lambda>s.
             or_return
               (if LimitMemory_LimitInBytes request \<noteq> None
                then let limits = \<lparr>LimitInBytes = limitInBytes\<rparr>
                     in invoke (Container_LimitMemory (Handle b container) limits)
                          (LimitMemory b container limits) s
                else (Ok (), s)) (\<lambda>_ s.
             or_return (invoke (Container_CurrentMemoryLimits (Handle b container))
                          (CurrentMemoryLimits b container) s) (\<lambda>limits s.
               (Returned (Some (LimitMemoryResponseMsg
                    \<lparr>LimitMemoryResponse_LimitInBytes = Some (LimitInBytes limits)\<rparr>))
                  None, s))))))"

text \<open>
  The first part of \<^verbatim>\<open>handleLimitDisk\<close>, before the lookup: the six values read from
  the request, the legacy aliases applied one after the other, and the flag
  \<^verbatim>\<open>settingLimit\<close>.
\<close>

definition limitDiskSettings :: "LimitDiskRequest \<Rightarrow> DiskLimits \<times> bool" where
  "limitDiskSettings request =
     (let blockSoft = GetUint64 (LimitDisk_BlockSoft request);
          blockHard = GetUint64 (LimitDisk_BlockHard request);
          inodeSoft = GetUint64 (LimitDisk_InodeSoft request);
          inodeHard = GetUint64 (LimitDisk_InodeHard request);
          byteSoft = GetUint64 (LimitDisk_ByteSoft request);
          byteHard = GetUint64 (LimitDisk_ByteHard request);
          settingLimit = False;
          settingLimit =
            (if LimitDisk_BlockSoft request \<noteq> None \<or> LimitDisk_BlockHard request \<noteq> None \<or>
                LimitDisk_InodeSoft request \<noteq> None \<or> LimitDisk_InodeHard request \<noteq> None \<or>
                LimitDisk_ByteSoft request \<noteq> None \<or> LimitDisk_ByteHard request \<noteq> None
             then True else settingLimit);
          (blockHard, settingLimit) =
            (if LimitDisk_Block request \<noteq> None
             then (GetUint64 (LimitDisk_Block request), True) else (blockHard, settingLimit));
          (blockHard, settingLimit) =
            (if LimitDisk_BlockLimit request \<noteq> None
             then (GetUint64 (LimitDisk_BlockLimit request), True) else (blockHard, settingLimit));
          (inodeHard, settingLimit) =
            (if LimitDisk_Inode request \<noteq> None
             then (GetUint64 (LimitDisk_Inode request), True) else (inodeHard, settingLimit));
          (inodeHard, settingLimit) =
            (if LimitDisk_InodeLimit request \<noteq> None
             then (GetUint64 (LimitDisk_InodeLimit request), True) else (inodeHard, settingLimit));
          (byteHard, settingLimit) =
            (if LimitDisk_Byte request \<noteq> None
             then (GetUint64 (LimitDisk_Byte request), True) else (byteHard, settingLimit));
          (byteHard, settingLimit) =
            (if LimitDisk_ByteLimit request \<noteq> None
             then (GetUint64 (LimitDisk_ByteLimit request), True) else (byteHard, settingLimit))
      in (\<lparr>BlockSoft = blockSoft, BlockHard = blockHard,
           InodeSoft = inodeSoft, InodeHard = inodeHard,
           ByteSoft = byteSoft, ByteHard = byteHard\<rparr>, settingLimit))"

definition handleLimitDisk ::
  "('b, 'c) backend \<Rightarrow> LimitDiskRequest \<Rightarrow> 'b server \<Rightarrow> outcome \<times> 'b server" where
  "handleLimitDisk b request s =
     (let handle = GetString (LimitDisk_Handle request);
          (limits, settingLimit) = limitDiskSettings request
      in or_return (invoke (Backend_Lookup handle) (Lookup b handle) s) (\<lambda>container.
           paused (Handle b container) (\<lambda>s.
             or_return
               (if settingLimit
                then invoke (Container_LimitDisk (Handle b container) limits)
                       (LimitDisk b container limits) s
                else (Ok (), s)) (\<lambda>_ s.
             or_return (invoke (Container_CurrentDiskLimits (Handle b container))
                          (CurrentDiskLimits b container) s) (\<lambda>limits s.
               (Returned (Some (LimitDiskResponseMsg
                    \<lparr>LimitDiskResponse_BlockSoft = Some (BlockSoft limits),
                     LimitDiskResponse_BlockHard = Some (BlockHard limits),
                     LimitDiskResponse_InodeSoft = Some (InodeSoft limits),
                     LimitDiskResponse_InodeHard = Some (InodeHard limits),
                     LimitDiskResponse_ByteSoft = Some (ByteSoft limits),
                     LimitDiskResponse_ByteHard = Some (ByteHard limits)\<rparr>))
                  None, s))))))"

definition handleLimitCpu ::
  "('b, 'c) backend \<Rightarrow> LimitCpuRequest \<Rightarrow> 'b server \<Rightarrow> outcome \<times> 'b server" where
  "handleLimitCpu b request s =
     (let handle = GetString (LimitCpu_Handle request);
          limitInShares = GetUint64 (LimitCpu_LimitInShares request)
      in or_return (invoke (Backend_Lookup handle) (Lookup b handle) s) (\<lambda>container.
           paused (Handle b container) (\<lambda>s.
             or_return
               (if LimitCpu_LimitInShares request \<noteq> None
                then let limits = \<lparr>LimitInShares = limitInShares\<rparr>
                     in invoke (Container_LimitCPU (Handle b container) limits)
                          (LimitCPU b container limits) s
                else (Ok (), s)) (\<lambda>_ s.
             or_return (invoke (Container_CurrentCPULimits (Handle b container))
                          (CurrentCPULimits b container) s) (\<lambda>limits s.
               (Returned (Some (LimitCpuResponseMsg
                    \<lparr>LimitCpuResponse_LimitInShares = Some (LimitInShares limits)\<rparr>))
                  None, s))))))"

definition handleNetIn ::
  "('b, 'c) backend \<Rightarrow> NetInRequest \<Rightarrow> 'b server \<Rightarrow> outcome \<times> 'b server" where
  "handleNetIn b request s =
     (let handle = GetString (NetIn_Handle request);
          hostPort = GetUint32 (NetIn_HostPort request);
          containerPort = GetUint32 (NetIn_ContainerPort request)
      in or_return (invoke (Backend_Lookup handle) (Lookup b handle) s) (\<lambda>container.
           paused (Handle b container) (\<lambda>s.
             or_return (invoke (Container_NetIn (Handle b container) hostPort containerPort)
                          (NetIn b container hostPort containerPort) s) (\<lambda>(hostPort, containerPort) s.
               (Returned (Some (NetInResponseMsg
                    \<lparr>NetInResponse_HostPort = Some hostPort,
                     NetInResponse_ContainerPort = Some containerPort\<rparr>))
                  None, s)))))"

definition handleNetOut ::
  "('b, 'c) backend \<Rightarrow> NetOutRequest \<Rightarrow> 'b server \<Rightarrow> outcome \<times> 'b server" where
  "handleNetOut b request s =
     (let handle = GetString (NetOut_Handle request);
          network = GetString (NetOut_Network request);
          port = GetUint32 (NetOut_Port request)
      in or_return (invoke (Backend_Lookup handle) (Lookup b handle) s) (\<lambda>container.
           paused (Handle b container) (\<lambda>s.
             or_return (invoke (Container_NetOut (Handle b container) network port)
                          (NetOut b container network port) s) (\<lambda>_ s.
               (Returned (Some NetOutResponse) None, s)))))"


fun streamProcessToConnection ::
  "uint32 \<Rightarrow> ProcessStream list \<Rightarrow> 'b server \<Rightarrow> Message option \<times> 'b server" where
  "streamProcessToConnection processID [] s = (None, s)"
| "streamProcessToConnection processID (payload # stream) s =
     (case ExitStatus payload of
        Some status \<Rightarrow>
          (Some (ProcessPayloadMsg
             \<lparr>Payload_ProcessId = Some processID, Payload_Source = None,
              Payload_Data = None, Payload_ExitStatus = Some status\<rparr>), s)
      | None \<Rightarrow>
          (let payloadSource =
                 (case Source payload of
                    ProcessStreamSourceStdout \<Rightarrow> ProcessPayload_stdout
                  | ProcessStreamSourceStderr \<Rightarrow> ProcessPayload_stderr
                  | ProcessStreamSourceStdin \<Rightarrow> ProcessPayload_stdin
                  | ProcessStreamSourceOther \<Rightarrow> ProcessPayload_zero)
           in streamProcessToConnection processID stream
                (WriteTo \<lparr>Payload_ProcessId = Some processID,
                          Payload_Source = Some payloadSource,
                          Payload_Data = Some (Data payload),
                          Payload_ExitStatus = None\<rparr> s)))"

definition convertEnvironmentVariables ::
  "(string option \<times> string option) list \<Rightarrow> (string \<times> string) list" where
  "convertEnvironmentVariables environmentVariables =
     map (\<lambda>env. (GetString (fst env), GetString (snd env))) environmentVariables"

definition resourceLimits :: "ResourceLimits \<Rightarrow> ResourceLimits" where
  "resourceLimits limits =
     \<lparr>As = As limits,
      Core = Core limits,
      Cpu = Cpu limits,
      Data_limit = Data_limit limits,
      Fsize = Fsize limits,
      Locks = Locks limits,
      Memlock = Memlock limits,
      Msgqueue = Msgqueue limits,
      Nice = Nice limits,
      Nofile = Nofile limits,
      Nproc = Nproc limits,
      Rss_limit = Rss_limit limits,
      Rtprio = Rtprio limits,
      Sigpending = Sigpending limits,
      Stack = Stack limits\<rparr>"

definition no_ResourceLimits :: ResourceLimits where
  "no_ResourceLimits =
     \<lparr>As = None,
      Core = None,
      Cpu = None,
      Data_limit = None,
      Fsize = None,
      Locks = None,
      Memlock = None,
      Msgqueue = None,
      Nice = None,
      Nofile = None,
      Nproc = None,
      Rss_limit = None,
      Rtprio = None,
      Sigpending = None,
      Stack = None\<rparr>"

text \<open>The process specification \<^verbatim>\<open>handleRun\<close> builds from the request.\<close>

definition processSpec :: "RunRequest \<Rightarrow> ProcessSpec" where
  "processSpec request =
     (let script = GetString (Run_Script request);
          privileged = GetBool (Run_Privileged request);
          env = Run_Env request
      in \<lparr>Script = script, Privileged = privileged,
          EnvironmentVariables = convertEnvironmentVariables env,
          Limits = (case Run_Rlimits request of
                      None \<Rightarrow> no_ResourceLimits
                    | Some limits \<Rightarrow> resourceLimits limits)\<rparr>)"

definition handleRun ::
  "('b, 'c) backend \<Rightarrow> RunRequest \<Rightarrow> 'b server \<Rightarrow> outcome \<times> 'b server" where
  "handleRun b request s =
     (let handle = GetString (Run_Handle request)
      in or_return (invoke (Backend_Lookup handle) (Lookup b handle) s) (\<lambda>container.
           paused (Handle b container) (\<lambda>s.
             let spec = processSpec request
             in or_return (invoke (Container_Run (Handle b container) spec)
                             (Run b container spec) s) (\<lambda>(processID, stream) s.
                  case streamProcessToConnection processID stream
                         (WriteTo \<lparr>Payload_ProcessId = Some processID, Payload_Source = None,
                                   Payload_Data = None, Payload_ExitStatus = None\<rparr> s) of
                    (m, s') \<Rightarrow> (Returned m None, s')))))"

definition handleAttach ::
  "('b, 'c) backend \<Rightarrow> AttachRequest \<Rightarrow> 'b server \<Rightarrow> outcome \<times> 'b server" where
  "handleAttach b request s =
     (let handle = GetString (Attach_Handle request);
          processID = GetUint32 (Attach_ProcessId request)
      in or_return (invoke (Backend_Lookup handle) (Lookup b handle) s) (\<lambda>container.
           paused (Handle b container) (\<lambda>s.
             or_return (invoke (Container_Attach (Handle b container) processID)
                          (Attach b container processID) s) (\<lambda>stream s.
               case streamProcessToConnection processID stream s of
                 (m, s') \<Rightarrow> (Returned m None, s')))))"

text \<open>
  The response \<^verbatim>\<open>handleInfo\<close> builds from the backend's info and from the entries of
  \<^verbatim>\<open>container.Properties()\<close>.
\<close>

definition infoResponse :: "ContainerInfo \<Rightarrow> (string \<times> string) list \<Rightarrow> InfoResponse" where
  "infoResponse info props =
     (let properties = map (\<lambda>(key, val). \<lparr>Key = Some key, Value = Some val\<rparr>) props;
          processIDs = map (\<lambda>processID. (ucast processID :: uint64)) (ProcessIDs info)
      in \<lparr>InfoResponse_State = Some (State info),
          InfoResponse_Events = Events info,
          InfoResponse_HostIp = Some (HostIP info),
          InfoResponse_ContainerIp = Some (ContainerIP info),
          InfoResponse_ExternalIp = None,
          InfoResponse_ContainerPath = Some (ContainerPath info),
          InfoResponse_ProcessIds = processIDs,
          InfoResponse_Properties = properties,
          InfoResponse_MemoryStat = Some
            \<lparr>MemoryStat_Cache = Some (Cache (MemoryStat info)),
             MemoryStat_Rss = Some (Rss (MemoryStat info)),
             MemoryStat_MappedFile = Some (MappedFile (MemoryStat info)),
             MemoryStat_Pgpgin = Some (Pgpgin (MemoryStat info)),
             MemoryStat_Pgpgout = Some (Pgpgout (MemoryStat info)),
             MemoryStat_Swap = Some (Swap (MemoryStat info)),
             MemoryStat_Pgfault = Some (Pgfault (MemoryStat info)),
             MemoryStat_Pgmajfault = Some (Pgmajfault (MemoryStat info)),
             MemoryStat_InactiveAnon = Some (InactiveAnon (MemoryStat info)),
             MemoryStat_ActiveAnon = Some (ActiveAnon (MemoryStat info)),
             MemoryStat_InactiveFile = Some (InactiveFile (MemoryStat info)),
             MemoryStat_ActiveFile = Some (ActiveFile (MemoryStat info)),
             MemoryStat_Unevictable = Some (Unevictable (MemoryStat info)),
             MemoryStat_HierarchicalMemoryLimit = Some (HierarchicalMemoryLimit (MemoryStat info)),
             MemoryStat_HierarchicalMemswLimit = Some (HierarchicalMemswLimit (MemoryStat info)),
             MemoryStat_TotalCache = Some (TotalCache (MemoryStat info)),
             MemoryStat_TotalRss = Some (TotalRss (MemoryStat info)),
             MemoryStat_TotalMappedFile = Some (TotalMappedFile (MemoryStat info)),
             MemoryStat_TotalPgpgin = Some (TotalPgpgin (MemoryStat info)),
             MemoryStat_TotalPgpgout = Some (TotalPgpgout (MemoryStat info)),
             MemoryStat_TotalSwap = Some (TotalSwap (MemoryStat info)),
             MemoryStat_TotalPgfault = Some (TotalPgfault (MemoryStat info)),
             MemoryStat_TotalPgmajfault = Some (TotalPgmajfault (MemoryStat info)),
             MemoryStat_TotalInactiveAnon = Some (TotalInactiveAnon (MemoryStat info)),
             MemoryStat_TotalActiveAnon = Some (TotalActiveAnon (MemoryStat info)),
             MemoryStat_TotalInactiveFile = Some (TotalInactiveFile (MemoryStat info)),
             MemoryStat_TotalActiveFile = Some (TotalActiveFile (MemoryStat info)),
             MemoryStat_TotalUnevictable = Some (TotalUnevictable (MemoryStat info))\<rparr>,
          InfoResponse_CpuStat = Some
            \<lparr>CpuStat_Usage = Some (Usage (CPUStat info)),
             CpuStat_User = Some (User (CPUStat info)),
             CpuStat_System = Some (System (CPUStat info))\<rparr>,
          InfoResponse_DiskStat = Some
            \<lparr>DiskStat_BytesUsed = Some (BytesUsed (DiskStat info)),
             DiskStat_InodesUsed = Some (InodesUsed (DiskStat info))\<rparr>,
          InfoResponse_BandwidthStat = Some
            \<lparr>BandwidthStat_InRate = Some (InRate (BandwidthStat info)),
             BandwidthStat_InBurst = Some (InBurst (BandwidthStat info)),
             BandwidthStat_OutRate = Some (OutRate (BandwidthStat info)),
             BandwidthStat_OutBurst = Some (OutBurst (BandwidthStat info))\<rparr>,
          InfoResponse_MappedPorts = []\<rparr>)"

definition container_Properties ::
  "('b, 'c) backend \<Rightarrow> 'c \<Rightarrow> 'b server \<Rightarrow> (string \<times> string) list \<times> 'b server" where
  "container_Properties b container s =
     (ContainerProperties b container (backend_state s),
      s\<lparr>calls := calls s @ [Container_Properties (Handle b container)]\<rparr>)"

definition handleInfo ::
  "('b, 'c) backend \<Rightarrow> InfoRequest \<Rightarrow> 'b server \<Rightarrow> outcome \<times> 'b server" where
  "handleInfo b request s =
     (let handle = GetString (Info_Handle request)
      in or_return (invoke (Backend_Lookup handle) (Lookup b handle) s) (\<lambda>container.
           paused (Handle b container) (\<lambda>s.
             or_return (invoke (Container_Info (Handle b container)) (Info b container) s) (\<lambda>info s.
               case container_Properties b container s of
                 (props, s') \<Rightarrow>
                   (Returned (Some (InfoResponseMsg (infoResponse info props))) None, s')))))"


section \<open>Client: the connection (client/connection/connection.go)\<close>

text \<open>
  The errors a call of the connection can return: the structured
  \<^verbatim>\<open>Error{StatusCode, Message}\<close>, an error made by \<^verbatim>\<open>fmt.Errorf\<close>, an error of a
  library the connection calls (request generator, HTTP client, message codec), and
  \<^verbatim>\<open>garden.ContainerNotFoundError\<close>, which the interface's comment on \<^verbatim>\<open>Destroy\<close> names.
\<close>

datatype client_error =
    Error int string
  | Errorf string
  | LibraryError err
  | ContainerNotFoundError string

type_synonym Params = "(string \<times> string) list"
type_synonym Values = "(string \<times> string list) list"

record Request =
  Request_Handler :: string
  Request_Params :: Params
  Request_Body :: "string option"
  Header_ContentType :: string
  URL_RawQuery :: string

text \<open>
  A response body is read to its end, or the read fails: \<^verbatim>\<open>ioutil.ReadAll\<close> returns its
  bytes, or the error of the read.
\<close>

record ResponseBody =
  Body_bytes :: string
  Body_read_error :: "err option"

record Response =
  StatusCode :: int
  Status :: string
  Body :: ResponseBody

definition ReadAll :: "ResponseBody \<Rightarrow> err + string" where
  "ReadAll body = (case Body_read_error body of Some e \<Rightarrow> Inl e | None \<Rightarrow> Inr (Body_bytes body))"

text \<open>
  The connection's collaborators: the request generator \<^verbatim>\<open>c.req\<close>, the encoding of a
  query, and the HTTP client without keep-alive.
\<close>

record connection =
  req_CreateRequest :: "string \<Rightarrow> Params \<Rightarrow> string option \<Rightarrow> err + Request"
  query_Encode :: "Values \<Rightarrow> string"
  noKeepaliveClient_Do :: "Request \<Rightarrow> err + Response"

text \<open>
  The two assignments \<^verbatim>\<open>doStream\<close> makes to the request it has created: the content
  type, when it is not empty, and the query, when there is one.
\<close>

definition with_header_and_query ::
  "connection \<Rightarrow> Values option \<Rightarrow> string \<Rightarrow> Request \<Rightarrow> Request" where
  "with_header_and_query c query contentType request =
     (let request = (if contentType \<noteq> [] then request\<lparr>Header_ContentType := contentType\<rparr>
                     else request);
          request = (case query of
                       Some q \<Rightarrow> request\<lparr>URL_RawQuery := query_Encode c q\<rparr>
                     | None \<Rightarrow> request)
      in request)"

definition doStream ::
  "connection \<Rightarrow> string \<Rightarrow> string option \<Rightarrow> Params \<Rightarrow> Values option \<Rightarrow> string
     \<Rightarrow> client_error + ResponseBody" where
  "doStream c handler body params query contentType =
     (case req_CreateRequest c handler params body of
        Inl e \<Rightarrow> Inl (LibraryError e)
      | Inr request \<Rightarrow>
          (let request = with_header_and_query c query contentType request
           in case noKeepaliveClient_Do c request of
                Inl e \<Rightarrow> Inl (LibraryError e)
              | Inr httpResp \<Rightarrow>
                  if StatusCode httpResp < 200 \<or> StatusCode httpResp > 299
                  then (case ReadAll (Body httpResp) of
                          Inl e \<Rightarrow> Inl (Errorf (''bad response: '' @ Status httpResp))
                        | Inr errResponse \<Rightarrow> Inl (Error (StatusCode httpResp) errResponse))
                  else Inr (Body httpResp)))"

text \<open>
  \<^verbatim>\<open>do\<close>: \<open>WriteMessage\<close> encodes the request value and \<open>Decode\<close> decodes the response
  body into the result; both belong to the message codec. \<open>request_body\<close> is the first
  part of \<^verbatim>\<open>do\<close>: no body for a nil request, the encoded request otherwise.
\<close>

definition request_body :: "('q \<Rightarrow> err + string) \<Rightarrow> 'q option \<Rightarrow> err + string option" where
  "request_body WriteMessage req =
     (case req of
        None \<Rightarrow> Inr None
      | Some r \<Rightarrow> (case WriteMessage r of Inl e \<Rightarrow> Inl e | Inr buf \<Rightarrow> Inr (Some buf)))"

definition do ::
  "connection \<Rightarrow> ('q \<Rightarrow> err + string) \<Rightarrow> (ResponseBody \<Rightarrow> err + 'r) \<Rightarrow> string \<Rightarrow> 'q option
     \<Rightarrow> Params \<Rightarrow> Values option \<Rightarrow> client_error + 'r" where
  "do c WriteMessage Decode handler req params query =
     (case request_body WriteMessage req of
        Inl e \<Rightarrow> Inl (LibraryError e)
      | Inr body \<Rightarrow>
          (let contentType = (if req \<noteq> None then ''application/json'' else [])
           in case doStream c handler body params query contentType of
                Inl e \<Rightarrow> Inl e
              | Inr response \<Rightarrow>
                  (case Decode response of
                     Inl e \<Rightarrow> Inl (LibraryError e)
                   | Inr res \<Rightarrow> Inr res)))"

definition Destroy ::
  "connection \<Rightarrow> (unit \<Rightarrow> err + string) \<Rightarrow> (ResponseBody \<Rightarrow> err + unit) \<Rightarrow> string
     \<Rightarrow> client_error option" where
  "Destroy c WriteMessage Decode handle =
     (case do c WriteMessage Decode ''Destroy'' None [(''handle'', handle)] None of
        Inl e \<Rightarrow> Some e
      | Inr _ \<Rightarrow> None)"

text \<open>
  The generated getter of a field of a nested message: zero when the message or the
  field is nil.
\<close>

definition GetUint64Of :: "('m \<Rightarrow> uint64 option) \<Rightarrow> 'm option \<Rightarrow> uint64" where
  "GetUint64Of field m = (case m of None \<Rightarrow> 0 | Some v \<Rightarrow> GetUint64 (field v))"

text \<open>The conversion of the decoded response in \<^verbatim>\<open>connection.Info\<close>.\<close>

definition containerInfo :: "InfoResponse \<Rightarrow> ContainerInfo" where
  "containerInfo res =
     (let processIDs = map (\<lambda>pid. (ucast pid :: uint32)) (InfoResponse_ProcessIds res);
          properties = foldl (\<lambda>properties prop.
                                properties(GetString (Key prop) \<mapsto> GetString (Value prop)))
                         Map.empty (InfoResponse_Properties res);
          mappedPorts = map (\<lambda>mapping.
                               \<lparr>HostPort = GetUint32 (PortMapping_HostPort mapping),
                                ContainerPort = GetUint32 (PortMapping_ContainerPort mapping)\<rparr>)
                          (InfoResponse_MappedPorts res);
          bandwidthStat = InfoResponse_BandwidthStat res;
          cpuStat = InfoResponse_CpuStat res;
          diskStat = InfoResponse_DiskStat res;
          memoryStat = InfoResponse_MemoryStat res
      in \<lparr>State = GetString (InfoResponse_State res),
          Events = InfoResponse_Events res,
          HostIP = GetString (InfoResponse_HostIp res),
          ContainerIP = GetString (InfoResponse_ContainerIp res),
          ExternalIP = GetString (InfoResponse_ExternalIp res),
          ContainerPath = GetString (InfoResponse_ContainerPath res),
          ProcessIDs = processIDs,
          Properties = properties,
          BandwidthStat =
            \<lparr>InRate = GetUint64Of BandwidthStat_InRate bandwidthStat,
             InBurst = GetUint64Of BandwidthStat_InBurst bandwidthStat,
             OutRate = GetUint64Of BandwidthStat_OutRate bandwidthStat,
             OutBurst = GetUint64Of BandwidthStat_OutBurst bandwidthStat\<rparr>,
          CPUStat =
            \<lparr>Usage = GetUint64Of CpuStat_Usage cpuStat,
             User = GetUint64Of CpuStat_User cpuStat,
             System = GetUint64Of CpuStat_System cpuStat\<rparr>,
          DiskStat =
            \<lparr>BytesUsed = GetUint64Of DiskStat_BytesUsed diskStat,
             InodesUsed = GetUint64Of DiskStat_InodesUsed diskStat\<rparr>,
          MemoryStat =
            \<lparr>Cache = GetUint64Of MemoryStat_Cache memoryStat,
             Rss = GetUint64Of MemoryStat_Rss memoryStat,
             MappedFile = GetUint64Of MemoryStat_MappedFile memoryStat,
             Pgpgin = GetUint64Of MemoryStat_Pgpgin memoryStat,
             Pgpgout = GetUint64Of MemoryStat_Pgpgout memoryStat,
             Swap = GetUint64Of MemoryStat_Swap memoryStat,
             Pgfault = GetUint64Of MemoryStat_Pgfault memoryStat,
             Pgmajfault = GetUint64Of MemoryStat_Pgmajfault memoryStat,
             InactiveAnon = GetUint64Of MemoryStat_InactiveAnon memoryStat,
             ActiveAnon = GetUint64Of MemoryStat_ActiveAnon memoryStat,
             InactiveFile = GetUint64Of MemoryStat_InactiveFile memoryStat,
             ActiveFile = GetUint64Of MemoryStat_ActiveFile memoryStat,
             Unevictable = GetUint64Of MemoryStat_Unevictable memoryStat,
             HierarchicalMemoryLimit = GetUint64Of MemoryStat_HierarchicalMemoryLimit memoryStat,
             HierarchicalMemswLimit = GetUint64Of MemoryStat_HierarchicalMemswLimit memoryStat,
             TotalCache = GetUint64Of MemoryStat_TotalCache memoryStat,
             TotalRss = GetUint64Of MemoryStat_TotalRss memoryStat,
             TotalMappedFile = GetUint64Of MemoryStat_TotalMappedFile memoryStat,
             TotalPgpgin = GetUint64Of MemoryStat_TotalPgpgin memoryStat,
             TotalPgpgout = GetUint64Of MemoryStat_TotalPgpgout memoryStat,
             TotalSwap = GetUint64Of MemoryStat_TotalSwap memoryStat,
             TotalPgfault = GetUint64Of MemoryStat_TotalPgfault memoryStat,
             TotalPgmajfault = GetUint64Of MemoryStat_TotalPgmajfault memoryStat,
             TotalInactiveAnon = GetUint64Of MemoryStat_TotalInactiveAnon memoryStat,
             TotalActiveAnon = GetUint64Of MemoryStat_TotalActiveAnon memoryStat,
             TotalInactiveFile = GetUint64Of MemoryStat_TotalInactiveFile memoryStat,
             TotalActiveFile = GetUint64Of MemoryStat_TotalActiveFile memoryStat,
             TotalUnevictable = GetUint64Of MemoryStat_TotalUnevictable memoryStat\<rparr>,
          MappedPorts = mappedPorts\<rparr>)"

definition connection_Info ::
  "connection \<Rightarrow> (unit \<Rightarrow> err + string) \<Rightarrow> (ResponseBody \<Rightarrow> err + InfoResponse) \<Rightarrow> string
     \<Rightarrow> client_error + ContainerInfo" where
  "connection_Info c WriteMessage Decode handle =
     (case do c WriteMessage Decode ''Info'' None [(''handle'', handle)] None of
        Inl e \<Rightarrow> Inl e
      | Inr res \<Rightarrow> Inr (containerInfo res))"


section \<open>Client: the stream handler (client/connection/stream\_handler.go)\<close>

text \<open>
  The fields of \<^verbatim>\<open>transport.ProcessPayload\<close> that the connection and the stream handler
  read.
\<close>

record transport_ProcessPayload =
  transport_ProcessID :: uint32
  transport_ExitStatus :: "uint32 option"
  transport_Error :: "string option"

text \<open>
  A goroutine started by \<^verbatim>\<open>go sh.copyStream(target, source)\<close> has two statements:
  \<^verbatim>\<open>io.Copy(target, source)\<close>, then \<^verbatim>\<open>sh.wg.Done()\<close>. Its program counter says which
  one is next. The source is kept as the bytes it delivers, the target by its name.
\<close>

datatype copy_pc = AtCopy | AtDone | Exited

record copyStream_task =
  task_target :: string
  task_source :: string
  task_pc :: copy_pc

text \<open>
  The flow of control that runs \<^verbatim>\<open>wait\<close>: decoding the next frame of the decoder's
  input, blocked in one of the three \<^verbatim>\<open>sh.wg.Wait()\<close> calls with the values it will
  return, or returned. The decoder's input is the list of the results of its
  \<^verbatim>\<open>Decode\<close> calls; at its end \<^verbatim>\<open>Decode\<close> fails with \<open>EOF\<close>.
\<close>

datatype wait_pc =
    NotStarted
  | Decoding "(err + transport_ProcessPayload) list"
  | AtWait int "err option"
  | WaitReturned int "err option"

text \<open>
  The state of one process session: the counter of the wait group \<^verbatim>\<open>sh.wg\<close>, the
  goroutines of \<^verbatim>\<open>copyStream\<close>, the copies that have been completed (target and
  bytes), and the flow of control of \<^verbatim>\<open>wait\<close>.
\<close>

record streamHandler =
  wg :: int
  copiers :: "copyStream_task list"
  copied :: "(string \<times> string) list"
  waiter :: wait_pc

type_synonym hijackFunc = "uint32 \<Rightarrow> string \<Rightarrow> err + string"

definition newStreamHandler :: streamHandler where
  "newStreamHandler = \<lparr>wg = 0, copiers = [], copied = [], waiter = NotStarted\<rparr>"

definition connect :: "hijackFunc \<Rightarrow> uint32 \<Rightarrow> string \<Rightarrow> err + string" where
  "connect hijack streamID route =
     (case hijack streamID route of
        Inl e \<Rightarrow> Inl (''Failed to hijack stream '' @ route @ '': '' @ e)
      | Inr source \<Rightarrow> Inr source)"

definition attach ::
  "hijackFunc \<Rightarrow> uint32 \<Rightarrow> string \<Rightarrow> streamHandler \<Rightarrow> (err + string) \<times> streamHandler" where
  "attach hijack streamID streamType sh =
     (case connect hijack streamID streamType of
        Inl e \<Rightarrow> (Inl e, sh)
      | Inr source \<Rightarrow> (Inr source, sh\<lparr>wg := wg sh + 1\<rparr>))"

definition streamOut ::
  "hijackFunc \<Rightarrow> uint32 \<Rightarrow> string \<Rightarrow> string option \<Rightarrow> streamHandler
     \<Rightarrow> err option \<times> streamHandler" where
  "streamOut hijack streamID streamType streamWriter sh =
     (case streamWriter of
        None \<Rightarrow> (None, sh)
      | Some w \<Rightarrow>
          (case attach hijack streamID streamType sh of
             (Inl e, sh') \<Rightarrow>
               (Some (''connection: attach to stream '' @ streamType @ '': '' @ e), sh')
           | (Inr stdout, sh') \<Rightarrow>
               (None, sh'\<lparr>copiers := copiers sh' @ [\<lparr>task_target = w, task_source = stdout, task_pc = AtCopy\<rparr>]\<rparr>)))"

text \<open>One step of the goroutine \<open>i\<close>; \<open>None\<close> when it has exited or does not exist.\<close>

definition copyStream_step :: "nat \<Rightarrow> streamHandler \<Rightarrow> streamHandler option" where
  "copyStream_step i sh =
     (if i < length (copiers sh)
      then (let t = copiers sh ! i
            in case task_pc t of
                 AtCopy \<Rightarrow> Some (sh\<lparr>copiers := (copiers sh)[i := t\<lparr>task_pc := AtDone\<rparr>],
                                     copied := copied sh @ [(task_target t, task_source t)]\<rparr>)
               | AtDone \<Rightarrow> Some (sh\<lparr>copiers := (copiers sh)[i := t\<lparr>task_pc := Exited\<rparr>],
                                     wg := wg sh - 1\<rparr>)
               | Exited \<Rightarrow> None)
      else None)"

text \<open>
  One step of \<^verbatim>\<open>wait\<close>: one turn of its loop up to the \<^verbatim>\<open>sh.wg.Wait()\<close> of the branch
  taken, or the return from \<^verbatim>\<open>sh.wg.Wait()\<close>, which is possible only when the counter is
  zero. \<open>None\<close> when \<^verbatim>\<open>wait\<close> is blocked, has not been called or has returned.
\<close>

definition wait_step :: "streamHandler \<Rightarrow> streamHandler option" where
  "wait_step sh =
     (case waiter sh of
        NotStarted \<Rightarrow> None
      | Decoding [] \<Rightarrow>
          Some (sh\<lparr>waiter := AtWait 0 (Some (''connection: decode failed: '' @ ''EOF''))\<rparr>)
      | Decoding (Inl e # rest) \<Rightarrow>
          Some (sh\<lparr>waiter := AtWait 0 (Some (''connection: decode failed: '' @ e))\<rparr>)
      | Decoding (Inr payload # rest) \<Rightarrow>
          (case transport_Error payload of
             Some e \<Rightarrow> Some (sh\<lparr>waiter := AtWait 0 (Some (''connection: process error: '' @ e))\<rparr>)
           | None \<Rightarrow>
               (case transport_ExitStatus payload of
                  Some status \<Rightarrow> Some (sh\<lparr>waiter := AtWait (uint status) None\<rparr>)
                | None \<Rightarrow> Some (sh\<lparr>waiter := Decoding rest\<rparr>)))
      | AtWait status e \<Rightarrow>
          (if wg sh = 0 then Some (sh\<lparr>waiter := WaitReturned status e\<rparr>) else None)
      | WaitReturned status e \<Rightarrow> None)"

definition wait :: "(err + transport_ProcessPayload) list \<Rightarrow> streamHandler \<Rightarrow> streamHandler" where
  "wait decoder sh = sh\<lparr>waiter := Decoding decoder\<rparr>"

text \<open>
  The scheduler picks which flow of control makes the next step; a pick that cannot
  make a step leaves the state as it is. A schedule is any list of picks.
\<close>

datatype pick = Waiter | Copier nat

definition schedule_step :: "pick \<Rightarrow> streamHandler \<Rightarrow> streamHandler" where
  "schedule_step p sh =
     (case (case p of Waiter \<Rightarrow> wait_step sh | Copier i \<Rightarrow> copyStream_step i sh) of
        None \<Rightarrow> sh
      | Some sh' \<Rightarrow> sh')"

definition run_schedule :: "pick list \<Rightarrow> streamHandler \<Rightarrow> streamHandler" where
  "run_schedule schedule sh = foldl (\<lambda>sh p. schedule_step p sh) sh schedule"

text \<open>
  The output streams of a session are attached one after the other, before \<^verbatim>\<open>wait\<close>
  is called; the errors of \<^verbatim>\<open>streamOut\<close> are left to the caller.
\<close>

definition streamOuts ::
  "hijackFunc \<Rightarrow> uint32 \<Rightarrow> (string \<times> string option) list \<Rightarrow> streamHandler \<Rightarrow> streamHandler" where
  "streamOuts hijack streamID outs sh =
     foldl (\<lambda>sh (streamType, streamWriter).
              snd (streamOut hijack streamID streamType streamWriter sh)) sh outs"


section \<open>Vocabulary of the properties\<close>

subsection \<open>Calls made by a handler\<close>

definition new_calls :: "'b server \<Rightarrow> 'b server \<Rightarrow> call list" where
  "new_calls s s' = drop (length (calls s)) (calls s')"

fun is_bomberman :: "call \<Rightarrow> bool" where
  "is_bomberman (Bomberman_Pause h) = True"
| "is_bomberman (Bomberman_Unpause h) = True"
| "is_bomberman c = False"

text \<open>
  Modelled from the spec: the eviction scheduler (bomberman) is not among the sources.
  The spec's pause and unpause are a simple pair on the timer of one handle: pausing
  makes the timer paused, also when it is paused already, and unpausing makes it
  running again.
\<close>

datatype timer = Running | Paused

fun timer_step :: "string \<Rightarrow> timer \<Rightarrow> call \<Rightarrow> timer" where
  "timer_step h t (Bomberman_Pause h') = (if h' = h then Paused else t)"
| "timer_step h t (Bomberman_Unpause h') = (if h' = h then Running else t)"
| "timer_step h t c = t"

definition timer_after :: "string \<Rightarrow> timer \<Rightarrow> call list \<Rightarrow> timer" where
  "timer_after h t cs = foldl (timer_step h) t cs"

text \<open>
  The pause discipline of a handler that was called in state \<open>s\<close> for the handle
  \<open>handle\<close> and ended with \<open>result\<close>. When the lookup of the handle succeeds, the calls of
  the handler start with the lookup and the pause, end with the unpause, hold no other
  call of the scheduler, and leave the timer running whatever it was before. When the
  lookup fails, the handler does not call the scheduler.
\<close>

definition pause_discipline ::
  "('b, 'c) backend \<Rightarrow> string \<Rightarrow> timer \<Rightarrow> 'b server \<Rightarrow> outcome \<times> 'b server \<Rightarrow> bool" where
  "pause_discipline b handle t s result =
     (let new = new_calls s (snd result)
      in case fst (Lookup b handle (backend_state s)) of
           Ok container \<Rightarrow>
             take 2 new = [Backend_Lookup handle, Bomberman_Pause (Handle b container)] \<and>
             2 < length new \<and>
             last new = Bomberman_Unpause (Handle b container) \<and>
             filter is_bomberman new =
               [Bomberman_Pause (Handle b container), Bomberman_Unpause (Handle b container)] \<and>
             timer_after (Handle b container) t new = Running
         | Err e \<Rightarrow> filter is_bomberman new = []
         | Panic \<Rightarrow> filter is_bomberman new = [])"

text \<open>
  A handler body is quiet when it only adds calls to the record and none of them is a
  call of the eviction scheduler.
\<close>

definition quiet :: "('b server \<Rightarrow> 'a \<times> 'b server) \<Rightarrow> bool" where
  "quiet m = (\<forall>s. \<exists>mid. calls (snd (m s)) = calls s @ mid \<and> filter is_bomberman mid = [])"

subsection \<open>Disk limits\<close>

text \<open>
  The value of the last alias that is present, of aliases listed in the order in which
  they are applied; zero when none is present.
\<close>

definition last_present :: "uint64 option list \<Rightarrow> uint64" where
  "last_present aliases = foldl (\<lambda>v alias. case alias of None \<Rightarrow> v | Some w \<Rightarrow> w) 0 aliases"

definition any_present :: "uint64 option list \<Rightarrow> bool" where
  "any_present aliases = list_ex (\<lambda>alias. alias \<noteq> None) aliases"

definition limit_fields :: "LimitDiskRequest \<Rightarrow> uint64 option list" where
  "limit_fields request =
     [LimitDisk_BlockSoft request, LimitDisk_BlockHard request,
      LimitDisk_InodeSoft request, LimitDisk_InodeHard request,
      LimitDisk_ByteSoft request, LimitDisk_ByteHard request,
      LimitDisk_Block request, LimitDisk_BlockLimit request,
      LimitDisk_Inode request, LimitDisk_InodeLimit request,
      LimitDisk_Byte request, LimitDisk_ByteLimit request]"

fun LimitDisk_arguments :: "call list \<Rightarrow> (string \<times> DiskLimits) list" where
  "LimitDisk_arguments [] = []"
| "LimitDisk_arguments (Container_LimitDisk h l # cs) = (h, l) # LimitDisk_arguments cs"
| "LimitDisk_arguments (c # cs) = LimitDisk_arguments cs"

subsection \<open>Frames of a process\<close>

definition initial_frame :: "uint32 \<Rightarrow> ProcessPayload" where
  "initial_frame processID =
     \<lparr>Payload_ProcessId = Some processID, Payload_Source = None,
      Payload_Data = None, Payload_ExitStatus = None\<rparr>"

definition payload_source :: "ProcessStreamSource \<Rightarrow> ProcessPayload_Source" where
  "payload_source source =
     (case source of
        ProcessStreamSourceStdout \<Rightarrow> ProcessPayload_stdout
      | ProcessStreamSourceStderr \<Rightarrow> ProcessPayload_stderr
      | ProcessStreamSourceStdin \<Rightarrow> ProcessPayload_stdin
      | ProcessStreamSourceOther \<Rightarrow> ProcessPayload_zero)"

definition data_frame :: "uint32 \<Rightarrow> ProcessStream \<Rightarrow> ProcessPayload" where
  "data_frame processID event =
     \<lparr>Payload_ProcessId = Some processID, Payload_Source = Some (payload_source (Source event)),
      Payload_Data = Some (Data event), Payload_ExitStatus = None\<rparr>"

definition exit_frame :: "uint32 \<Rightarrow> uint32 \<Rightarrow> ProcessPayload" where
  "exit_frame processID status =
     \<lparr>Payload_ProcessId = Some processID, Payload_Source = None,
      Payload_Data = None, Payload_ExitStatus = Some status\<rparr>"

definition is_data_event :: "ProcessStream \<Rightarrow> bool" where
  "is_data_event event = (ExitStatus event = None)"

text \<open>The data frames of the events before the first event that carries an exit status.\<close>

definition data_frames :: "uint32 \<Rightarrow> ProcessStream list \<Rightarrow> ProcessPayload list" where
  "data_frames processID stream = map (data_frame processID) (takeWhile is_data_event stream)"

text \<open>The exit status of the first event that carries one.\<close>

definition first_exit_status :: "ProcessStream list \<Rightarrow> uint32 option" where
  "first_exit_status stream =
     (case dropWhile is_data_event stream of [] \<Rightarrow> None | event # _ \<Rightarrow> ExitStatus event)"

definition terminal_message :: "uint32 \<Rightarrow> ProcessStream list \<Rightarrow> Message option" where
  "terminal_message processID stream =
     map_option (\<lambda>status. ProcessPayloadMsg (exit_frame processID status)) (first_exit_status stream)"

text \<open>
  Modelled from the spec: the dispatcher that calls the handlers is not among the
  sources. It writes the message a streaming handler returns to the connection, after
  the frames the handler has written itself; a handler that returns nil adds no frame.
\<close>

definition frames_on_connection :: "Message option \<times> 'b server \<Rightarrow> ProcessPayload list" where
  "frames_on_connection result =
     (case result of
        (Some (ProcessPayloadMsg frame), s) \<Rightarrow> conn s @ [frame]
      | (_, s) \<Rightarrow> conn s)"

section \<open>A backend and a server state to run the handlers on\<close>

record fixture =
  known :: "string list"
  bandwidth :: BandwidthLimits
  stop_result :: "unit ret"
  events :: "ProcessStream list"

definition zero_DiskLimits :: DiskLimits where
  "zero_DiskLimits =
     \<lparr>BlockSoft = 0, BlockHard = 0, InodeSoft = 0, InodeHard = 0, ByteSoft = 0, ByteHard = 0\<rparr>"

definition fixture_backend :: "(fixture, string) backend" where
  "fixture_backend =
     \<lparr>Lookup = (\<lambda>h st. (if h \<in> set (known st) then Ok h else Err (''unknown handle: '' @ h), st)),
      Handle = (\<lambda>c. c),
      ContainerProperties = (\<lambda>c st. []),
      Stop = (\<lambda>c kill st. (stop_result st, st)),
      CopyIn = (\<lambda>c src dst st. (Ok (), st)),
      CopyOut = (\<lambda>c src dst owner st. (Ok (), st)),
      LimitBandwidth = (\<lambda>c limits st. (Ok (), st\<lparr>bandwidth := limits\<rparr>)),
      CurrentBandwidthLimits = (\<lambda>c st. (Ok (bandwidth st), st)),
      LimitMemory = (\<lambda>c limits st. (Ok (), st)),
      CurrentMemoryLimits = (\<lambda>c st. (Ok \<lparr>LimitInBytes = 0\<rparr>, st)),
      LimitDisk = (\<lambda>c limits st. (Ok (), st)),
      CurrentDiskLimits = (\<lambda>c st. (Ok zero_DiskLimits, st)),
      LimitCPU = (\<lambda>c limits st. (Ok (), st)),
      CurrentCPULimits = (\<lambda>c st. (Ok \<lparr>LimitInShares = 0\<rparr>, st)),
      NetIn = (\<lambda>c hostPort containerPort st. (Ok (hostPort, containerPort), st)),
      NetOut = (\<lambda>c network port st. (Ok (), st)),
      Run = (\<lambda>c spec st. (Ok (7, events st), st)),
      Attach = (\<lambda>c processID st. (Ok (events st), st)),
      Info = (\<lambda>c st. (Err ''no info'', st))\<rparr>"

definition fixture_state :: fixture where
  "fixture_state =
     \<lparr>known = [''c1''],
      bandwidth = \<lparr>RateInBytesPerSecond = 100, BurstRateInBytesPerSecond = 200\<rparr>,
      stop_result = Err ''stop failed'',
      events = [\<lparr>Source = ProcessStreamSourceStdout, Data = ''hi'', ExitStatus = None\<rparr>,
                \<lparr>Source = ProcessStreamSourceStdout, Data = [], ExitStatus = Some 0\<rparr>]\<rparr>"

definition fixture_server :: "fixture server" where
  "fixture_server = \<lparr>backend_state = fixture_state, calls = [], conn = []\<rparr>"

definition panic_server :: "fixture server" where
  "panic_server = fixture_server\<lparr>backend_state := fixture_state\<lparr>stop_result := Panic\<rparr>\<rparr>"

section \<open>A connection, a container info and a process session to run the client on\<close>

definition fixture_connection :: "Response \<Rightarrow> connection" where
  "fixture_connection response =
     \<lparr>req_CreateRequest = (\<lambda>handler params body.
        Inr \<lparr>Request_Handler = handler, Request_Params = params, Request_Body = body,
             Header_ContentType = [], URL_RawQuery = []\<rparr>),
      query_Encode = (\<lambda>query. []),
      noKeepaliveClient_Do = (\<lambda>request. Inr response)\<rparr>"

definition not_found_response :: Response where
  "not_found_response =
     \<lparr>StatusCode = 404, Status = ''404 Not Found'',
      Body = \<lparr>Body_bytes = ''unknown handle: missing'', Body_read_error = None\<rparr>\<rparr>"

definition broken_response :: Response where
  "broken_response =
     \<lparr>StatusCode = 500, Status = ''500 Internal Server Error'',
      Body = \<lparr>Body_bytes = [], Body_read_error = Some ''unexpected EOF''\<rparr>\<rparr>"

definition ok_response :: Response where
  "ok_response =
     \<lparr>StatusCode = 200, Status = ''200 OK'',
      Body = \<lparr>Body_bytes = ''{}'', Body_read_error = None\<rparr>\<rparr>"

definition example_info :: ContainerInfo where
  "example_info =
     \<lparr>State = ''active'', Events = [''oom''], HostIP = ''10.0.0.1'', ContainerIP = ''10.0.0.2'',
      ExternalIP = ''192.168.0.1'', ContainerPath = ''/depot/c1'', ProcessIDs = [1, 2],
      Properties = [''owner'' \<mapsto> ''alice''],
      BandwidthStat = \<lparr>InRate = 1, InBurst = 2, OutRate = 3, OutBurst = 4\<rparr>,
      CPUStat = \<lparr>Usage = 5, User = 6, System = 7\<rparr>,
      DiskStat = \<lparr>BytesUsed = 8, InodesUsed = 9\<rparr>,
      MemoryStat =
        \<lparr>Cache = 10,
         Rss = 11,
         MappedFile = 12,
         Pgpgin = 13,
         Pgpgout = 14,
         Swap = 15,
         Pgfault = 16,
         Pgmajfault = 17,
         InactiveAnon = 18,
         ActiveAnon = 19,
         InactiveFile = 20,
         ActiveFile = 21,
         Unevictable = 22,
         HierarchicalMemoryLimit = 23,
         HierarchicalMemswLimit = 24,
         TotalCache = 25,
         TotalRss = 26,
         TotalMappedFile = 27,
         TotalPgpgin = 28,
         TotalPgpgout = 29,
         TotalSwap = 30,
         TotalPgfault = 31,
         TotalPgmajfault = 32,
         TotalInactiveAnon = 33,
         TotalActiveAnon = 34,
         TotalInactiveFile = 35,
         TotalActiveFile = 36,
         TotalUnevictable = 37\<rparr>,
      MappedPorts = [\<lparr>HostPort = 61001, ContainerPort = 8080\<rparr>]\<rparr>"

definition fixture_hijack :: hijackFunc where
  "fixture_hijack streamID streamType =
     (if streamType = ''stdout'' then Inr ''hello'' else Inl ''refused'')"

definition fixture_decoder :: "(err + transport_ProcessPayload) list" where
  "fixture_decoder =
     [Inr \<lparr>transport_ProcessID = 7, transport_ExitStatus = None, transport_Error = None\<rparr>,
      Inr \<lparr>transport_ProcessID = 7, transport_ExitStatus = Some 3, transport_Error = None\<rparr>]"

definition fixture_session :: streamHandler where
  "fixture_session =
     wait fixture_decoder
       (streamOuts fixture_hijack 7
          [(''stdout'', Some ''out.log''), (''stderr'', Some ''err.log''), (''stdout'', None)]
          newStreamHandler)"

section \<open>Vocabulary of the wait group\<close>

text \<open>
  The goroutines of \<^verbatim>\<open>copyStream\<close> that have not called \<^verbatim>\<open>sh.wg.Done()\<close> yet, the
  streams a session has registered (target and bytes), and the invariant of a
  session: the counter of the wait group is the number of pending goroutines, a
  goroutine that is past its \<^verbatim>\<open>io.Copy\<close> has delivered its bytes, and nothing is pending
  once \<^verbatim>\<open>wait\<close> has returned.
\<close>

definition pending :: "copyStream_task list \<Rightarrow> nat" where
  "pending ts = length (filter (\<lambda>t. task_pc t \<noteq> Exited) ts)"

definition registered :: "streamHandler \<Rightarrow> (string \<times> string) list" where
  "registered sh = map (\<lambda>t. (task_target t, task_source t)) (copiers sh)"

definition wg_invariant :: "streamHandler \<Rightarrow> bool" where
  "wg_invariant sh =
     (wg sh = int (pending (copiers sh)) \<and>
      (\<forall>t \<in> set (copiers sh).
         task_pc t \<noteq> AtCopy \<longrightarrow> (task_target t, task_source t) \<in> set (copied sh)) \<and>
      (case waiter sh of WaitReturned status e \<Rightarrow> pending (copiers sh) = 0 | _ \<Rightarrow> True))"

section \<open>The server's frames (Run, Attach and the streamer)\<close>

lemmas handler_steps = or_return_def invoke_def paused_def bomberman_Pause_def
  bomberman_Unpause_def go_def WriteTo_def container_Properties_def

lemma streamProcessToConnection_eq:
  "streamProcessToConnection processID stream s =
     (terminal_message processID stream, s\<lparr>conn := conn s @ data_frames processID stream\<rparr>)"
proof (induction stream arbitrary: s)
  case Nil
  show ?case
    by (simp add: terminal_message_def first_exit_status_def data_frames_def)
next
  case (Cons payload stream)
  show ?case
  proof (cases "ExitStatus payload")
    case None
    then show ?thesis
      by (simp add: Cons.IH terminal_message_def first_exit_status_def data_frames_def
          is_data_event_def data_frame_def payload_source_def WriteTo_def)
  next
    case (Some status)
    then show ?thesis
      by (simp add: terminal_message_def first_exit_status_def data_frames_def
          is_data_event_def exit_frame_def)
  qed
qed

text \<open>
  C6. For every process-event stream, the frames of a process on the connection are
  the frames already there, then one data frame per event in the order of the events,
  up to the first event that carries an exit status, then the exit-status frame of
  that event if there is one, and nothing after it: the events behind the first exit
  status add no frame. The streamer writes the data frames itself; the exit-status
  frame is the message it returns.
\<close>

theorem streamer_frames:
  "frames_on_connection (streamProcessToConnection processID stream s) =
     conn s @ map (data_frame processID) (takeWhile is_data_event stream) @
       (case first_exit_status stream of None \<Rightarrow> [] | Some status \<Rightarrow> [exit_frame processID status])"
  by (simp add: streamProcessToConnection_eq frames_on_connection_def terminal_message_def
      data_frames_def split: option.splits)

theorem streamer_frames_witness:
  "frames_on_connection (streamProcessToConnection 7
       [\<lparr>Source = ProcessStreamSourceStdout, Data = ''a'', ExitStatus = None\<rparr>,
        \<lparr>Source = ProcessStreamSourceStderr, Data = ''b'', ExitStatus = None\<rparr>,
        \<lparr>Source = ProcessStreamSourceStdout, Data = ''c'', ExitStatus = Some 2\<rparr>,
        \<lparr>Source = ProcessStreamSourceStdout, Data = ''d'', ExitStatus = None\<rparr>]
       fixture_server) =
     [\<lparr>Payload_ProcessId = Some 7, Payload_Source = Some ProcessPayload_stdout,
       Payload_Data = Some ''a'', Payload_ExitStatus = None\<rparr>,
      \<lparr>Payload_ProcessId = Some 7, Payload_Source = Some ProcessPayload_stderr,
       Payload_Data = Some ''b'', Payload_ExitStatus = None\<rparr>,
      \<lparr>Payload_ProcessId = Some 7, Payload_Source = None,
       Payload_Data = None, Payload_ExitStatus = Some 2\<rparr>]"
  using streamer_frames [of 7
      "[\<lparr>Source = ProcessStreamSourceStdout, Data = ''a'', ExitStatus = None\<rparr>,
        \<lparr>Source = ProcessStreamSourceStderr, Data = ''b'', ExitStatus = None\<rparr>,
        \<lparr>Source = ProcessStreamSourceStdout, Data = ''c'', ExitStatus = Some 2\<rparr>,
        \<lparr>Source = ProcessStreamSourceStdout, Data = ''d'', ExitStatus = None\<rparr>]"
      fixture_server]
  by (simp add: fixture_server_def is_data_event_def first_exit_status_def data_frame_def
      exit_frame_def payload_source_def)

text \<open>
  C4, as amended. When the lookup and the backend's \<^verbatim>\<open>Run\<close> succeed, \<^verbatim>\<open>handleRun\<close>
  first writes an initial frame that carries only the process ID the backend assigned,
  then the data frames of the event stream, and returns the exit-status frame of the
  first event that carries an exit status, or nil when the stream closes without one.
  When the lookup and the backend's \<^verbatim>\<open>Attach\<close> succeed, \<^verbatim>\<open>handleAttach\<close> writes no
  initial frame: it writes the data frames only, with the process ID of the request,
  and returns the exit-status frame in the same way.
\<close>

theorem run_attach_frames:
  "(Lookup b (GetString (Run_Handle rq)) (backend_state s) = (Ok container, st1) \<and>
    Run b container (processSpec rq) st1 = (Ok (processID, stream), st2) \<longrightarrow>
      handleRun b rq s =
        (Returned (terminal_message processID stream) None,
         s\<lparr>backend_state := st2,
           calls := calls s @
            [Backend_Lookup (GetString (Run_Handle rq)),
             Bomberman_Pause (Handle b container),
             Container_Run (Handle b container) (processSpec rq),
             Bomberman_Unpause (Handle b container)],
           conn := conn s @ initial_frame processID # data_frames processID stream\<rparr>)) \<and>
   (Lookup b (GetString (Attach_Handle att)) (backend_state s) = (Ok container', st1') \<and>
    Attach b container' (GetUint32 (Attach_ProcessId att)) st1' = (Ok stream', st2') \<longrightarrow>
      handleAttach b att s =
        (Returned (terminal_message (GetUint32 (Attach_ProcessId att)) stream') None,
         s\<lparr>backend_state := st2',
           calls := calls s @
            [Backend_Lookup (GetString (Attach_Handle att)),
             Bomberman_Pause (Handle b container'),
             Container_Attach (Handle b container') (GetUint32 (Attach_ProcessId att)),
             Bomberman_Unpause (Handle b container')],
           conn := conn s @ data_frames (GetUint32 (Attach_ProcessId att)) stream'\<rparr>))"
  by (simp add: handleRun_def handleAttach_def handler_steps streamProcessToConnection_eq
      initial_frame_def Let_def)

theorem run_attach_frames_witness:
  "handleRun fixture_backend
     \<lparr>Run_Handle = Some ''c1'', Run_Script = Some ''echo hi'', Run_Privileged = None,
      Run_Env = [], Run_Rlimits = None\<rparr> fixture_server =
     (Returned (Some (ProcessPayloadMsg (exit_frame 7 0))) None,
      fixture_server
        \<lparr>calls :=
           [Backend_Lookup ''c1'', Bomberman_Pause ''c1'',
            Container_Run ''c1''
              (processSpec \<lparr>Run_Handle = Some ''c1'', Run_Script = Some ''echo hi'',
                 Run_Privileged = None, Run_Env = [], Run_Rlimits = None\<rparr>),
            Bomberman_Unpause ''c1''],
         conn :=
           [initial_frame 7,
            data_frame 7 \<lparr>Source = ProcessStreamSourceStdout, Data = ''hi'', ExitStatus = None\<rparr>]\<rparr>) \<and>
   handleAttach fixture_backend \<lparr>Attach_Handle = Some ''c1'', Attach_ProcessId = Some 7\<rparr>
     fixture_server =
     (Returned (Some (ProcessPayloadMsg (exit_frame 7 0))) None,
      fixture_server
        \<lparr>calls :=
           [Backend_Lookup ''c1'', Bomberman_Pause ''c1'', Container_Attach ''c1'' 7,
            Bomberman_Unpause ''c1''],
         conn :=
           [data_frame 7 \<lparr>Source = ProcessStreamSourceStdout, Data = ''hi'', ExitStatus = None\<rparr>]\<rparr>)"
  using run_attach_frames [where b = fixture_backend and s = fixture_server
      and rq = "\<lparr>Run_Handle = Some ''c1'', Run_Script = Some ''echo hi'', Run_Privileged = None,
        Run_Env = [], Run_Rlimits = None\<rparr>"
      and container = "''c1''" and ?st1.0 = fixture_state and ?st2.0 = fixture_state
      and processID = 7 and stream = "events fixture_state"
      and att = "\<lparr>Attach_Handle = Some ''c1'', Attach_ProcessId = Some 7\<rparr>"
      and container' = "''c1''" and st1' = fixture_state and st2' = fixture_state
      and stream' = "events fixture_state"]
  by (simp add: fixture_backend_def fixture_server_def fixture_state_def GetString_def
      GetUint32_def terminal_message_def first_exit_status_def data_frames_def is_data_event_def)

text \<open>
  C4 as stated fails for Attach: the first frame \<^verbatim>\<open>handleAttach\<close> writes is the data
  frame of the first event, not an initial frame.
\<close>

theorem attach_first_frame_is_data:
  "conn (snd (handleAttach fixture_backend
       \<lparr>Attach_Handle = Some ''c1'', Attach_ProcessId = Some 7\<rparr> fixture_server)) =
     [data_frame 7 \<lparr>Source = ProcessStreamSourceStdout, Data = ''hi'', ExitStatus = None\<rparr>] \<and>
   data_frame 7 \<lparr>Source = ProcessStreamSourceStdout, Data = ''hi'', ExitStatus = None\<rparr> \<noteq>
     initial_frame 7"
  by (simp add: handleAttach_def handler_steps Let_def fixture_backend_def
      fixture_server_def fixture_state_def GetString_def GetUint32_def initial_frame_def
      streamProcessToConnection_eq data_frames_def is_data_event_def data_frame_def)

section \<open>The pause discipline of the handlers\<close>

lemma quiet_pure: "quiet (\<lambda>s. (x, s))"
  by (simp add: quiet_def)

lemma quiet_same_calls: "(\<And>s. calls (snd (m s)) = calls s) \<Longrightarrow> quiet m"
  by (simp add: quiet_def)

lemma quiet_invoke: "\<not> is_bomberman c \<Longrightarrow> quiet (invoke c f)"
  by (simp add: quiet_def invoke_def split: prod.splits)

lemma quiet_go: "quiet (\<lambda>s. (x, go c s))"
  by (simp add: quiet_def go_def)

lemma quiet_if: "quiet m \<Longrightarrow> quiet n \<Longrightarrow> quiet (\<lambda>s. if P then m s else n s)"
  by (simp add: quiet_def)

lemma quiet_case_prod: "(\<And>x y. quiet (k x y)) \<Longrightarrow> quiet (case p of (x, y) \<Rightarrow> k x y)"
  by (cases p) simp

lemma quiet_or_return:
  assumes m: "quiet m" and k: "\<And>v. quiet (k v)"
  shows "quiet (\<lambda>s. or_return (m s) k)"
  unfolding quiet_def
proof
  fix s
  obtain r s1 where ms: "m s = (r, s1)"
    by (cases "m s")
  from m obtain mid1 where mid1: "calls s1 = calls s @ mid1" "filter is_bomberman mid1 = []"
    unfolding quiet_def using ms by (metis snd_conv)
  show "\<exists>mid. calls (snd (or_return (m s) k)) = calls s @ mid \<and> filter is_bomberman mid = []"
  proof (cases r)
    case (Ok v)
    from k [of v] obtain mid2 where
      mid2: "calls (snd (k v s1)) = calls s1 @ mid2" "filter is_bomberman mid2 = []"
      unfolding quiet_def by blast
    have "calls (snd (or_return (m s) k)) = calls s @ (mid1 @ mid2)"
      using ms Ok mid1 mid2 by (simp add: or_return_def)
    moreover have "filter is_bomberman (mid1 @ mid2) = []"
      using mid1 mid2 by simp
    ultimately show ?thesis by blast
  next
    case (Err e)
    then show ?thesis using ms mid1 by (simp add: or_return_def)
  next
    case Panic
    then show ?thesis using ms mid1 by (simp add: or_return_def)
  qed
qed

lemma timer_after_quiet:
  "filter is_bomberman mid = [] \<Longrightarrow> foldl (timer_step h) t mid = t"
proof (induction mid arbitrary: t)
  case Nil
  show ?case by simp
next
  case (Cons c mid)
  then show ?case by (cases c) (simp_all split: if_splits)
qed

lemma pause_discipline_handler:
  assumes body: "\<And>container. quiet (body container)"
  shows "pause_discipline b handle t s
           (or_return (invoke (Backend_Lookup handle) (Lookup b handle) s)
              (\<lambda>container. paused (Handle b container) (body container)))"
proof -
  obtain r st1 where look: "Lookup b handle (backend_state s) = (r, st1)"
    by (cases "Lookup b handle (backend_state s)")
  define s1 where "s1 = s\<lparr>backend_state := st1, calls := calls s @ [Backend_Lookup handle]\<rparr>"
  have inv: "invoke (Backend_Lookup handle) (Lookup b handle) s = (r, s1)"
    by (simp add: invoke_def look s1_def)
  show ?thesis
  proof (cases r)
    case (Ok container)
    define s2 where "s2 = bomberman_Pause (Handle b container) s1"
    from body [of container] obtain mid where
      mid: "calls (snd (body container s2)) = calls s2 @ mid" "filter is_bomberman mid = []"
      unfolding quiet_def by blast
    obtain r2 s3 where run: "body container s2 = (r2, s3)"
      by (cases "body container s2")
    have s2: "calls s2 = calls s @ [Backend_Lookup handle, Bomberman_Pause (Handle b container)]"
      by (simp add: s2_def s1_def bomberman_Pause_def)
    have s3: "calls s3 = calls s @
        [Backend_Lookup handle, Bomberman_Pause (Handle b container)] @ mid"
      using mid(1) run s2 by simp
    have "paused (Handle b container) (body container) s1 =
        (r2, bomberman_Unpause (Handle b container) s3)"
      using run by (simp add: paused_def s2_def)
    then have new: "new_calls s (snd (paused (Handle b container) (body container) s1)) =
        [Backend_Lookup handle, Bomberman_Pause (Handle b container)] @ mid @
        [Bomberman_Unpause (Handle b container)]"
      by (simp add: new_calls_def bomberman_Unpause_def s3)
    show ?thesis
      using look Ok inv mid(2)
      by (simp add: pause_discipline_def or_return_def new timer_after_def timer_after_quiet)
  next
    case (Err e)
    then show ?thesis
      using look inv by (simp add: pause_discipline_def or_return_def new_calls_def s1_def)
  next
    case Panic
    then show ?thesis
      using look inv by (simp add: pause_discipline_def or_return_def new_calls_def s1_def)
  qed
qed

lemma quiet_stream:
  "(\<And>s. calls (f s) = calls s) \<Longrightarrow>
     quiet (\<lambda>s. case streamProcessToConnection processID stream (f s) of
                  (m, s') \<Rightarrow> (Returned m None, s'))"
  by (rule quiet_same_calls) (simp add: streamProcessToConnection_eq)

lemma quiet_container_Properties:
  "quiet (\<lambda>s. case container_Properties b container s of (props, s') \<Rightarrow> (k props, s'))"
  by (simp add: quiet_def container_Properties_def)

lemmas quiet_rules = quiet_or_return quiet_invoke quiet_pure quiet_go quiet_if quiet_case_prod
  quiet_stream quiet_container_Properties

lemma handleCopyOut_discipline:
  "pause_discipline b (GetString (CopyOut_Handle request)) t s (handleCopyOut b request s)"
  unfolding handleCopyOut_def Let_def
  by (intro pause_discipline_handler quiet_rules) (simp_all add: WriteTo_def)

lemma handleStop_discipline:
  "pause_discipline b (GetString (Stop_Handle request)) t s (handleStop b request s)"
  unfolding handleStop_def Let_def
  by (intro pause_discipline_handler quiet_rules) (simp_all add: WriteTo_def)

lemma handleCopyIn_discipline:
  "pause_discipline b (GetString (CopyIn_Handle request)) t s (handleCopyIn b request s)"
  unfolding handleCopyIn_def Let_def
  by (intro pause_discipline_handler quiet_rules) (simp_all add: WriteTo_def)

lemma handleLimitBandwidth_discipline:
  "pause_discipline b (GetString (LimitBandwidth_Handle request)) t s (handleLimitBandwidth b request s)"
  unfolding handleLimitBandwidth_def Let_def
  by (intro pause_discipline_handler quiet_rules) (simp_all add: WriteTo_def)

lemma handleLimitMemory_discipline:
  "pause_discipline b (GetString (LimitMemory_Handle request)) t s (handleLimitMemory b request s)"
  unfolding handleLimitMemory_def Let_def
  by (intro pause_discipline_handler quiet_rules) (simp_all add: WriteTo_def)

lemma handleLimitDisk_discipline:
  "pause_discipline b (GetString (LimitDisk_Handle request)) t s (handleLimitDisk b request s)"
  unfolding handleLimitDisk_def Let_def case_prod_beta
  by (intro pause_discipline_handler quiet_rules) (simp_all add: WriteTo_def)

lemma handleLimitCpu_discipline:
  "pause_discipline b (GetString (LimitCpu_Handle request)) t s (handleLimitCpu b request s)"
  unfolding handleLimitCpu_def Let_def
  by (intro pause_discipline_handler quiet_rules) (simp_all add: WriteTo_def)

lemma handleNetIn_discipline:
  "pause_discipline b (GetString (NetIn_Handle request)) t s (handleNetIn b request s)"
  unfolding handleNetIn_def Let_def
  by (intro pause_discipline_handler quiet_rules) (simp_all add: WriteTo_def)

lemma handleNetOut_discipline:
  "pause_discipline b (GetString (NetOut_Handle request)) t s (handleNetOut b request s)"
  unfolding handleNetOut_def Let_def
  by (intro pause_discipline_handler quiet_rules) (simp_all add: WriteTo_def)

lemma handleRun_discipline:
  "pause_discipline b (GetString (Run_Handle request)) t s (handleRun b request s)"
  unfolding handleRun_def Let_def
  by (intro pause_discipline_handler quiet_rules) (simp_all add: WriteTo_def)

lemma handleAttach_discipline:
  "pause_discipline b (GetString (Attach_Handle request)) t s (handleAttach b request s)"
  unfolding handleAttach_def Let_def
  by (intro pause_discipline_handler quiet_rules) (simp_all add: WriteTo_def)

lemma handleInfo_discipline:
  "pause_discipline b (GetString (Info_Handle request)) t s (handleInfo b request s)"
  unfolding handleInfo_def Let_def
  by (intro pause_discipline_handler quiet_rules) (simp_all add: WriteTo_def)

text \<open>
  C9. Each of the twelve handlers that work on an existing container (Stop, CopyIn,
  CopyOut, the four limit handlers, NetIn, NetOut, Info, Run, Attach) keeps the pause
  discipline, whatever the backend answers: after a successful lookup its next call is
  the pause of the container's handle, before any method of the container; its last
  call is the unpause of the same handle, also when a method of the container returns
  an error or panics; it calls the scheduler exactly these two times; and the timer of
  the handle is running afterwards, whatever it was before. When the lookup fails the
  handler does not call the scheduler.
\<close>

theorem handlers_pause_discipline:
  "pause_discipline b (GetString (Stop_Handle stop)) t s (handleStop b stop s) \<and>
   pause_discipline b (GetString (CopyIn_Handle copyIn)) t s (handleCopyIn b copyIn s) \<and>
   pause_discipline b (GetString (CopyOut_Handle copyOut)) t s (handleCopyOut b copyOut s) \<and>
   pause_discipline b (GetString (LimitBandwidth_Handle limitBandwidth)) t s
     (handleLimitBandwidth b limitBandwidth s) \<and>
   pause_discipline b (GetString (LimitMemory_Handle limitMemory)) t s
     (handleLimitMemory b limitMemory s) \<and>
   pause_discipline b (GetString (LimitDisk_Handle limitDisk)) t s
     (handleLimitDisk b limitDisk s) \<and>
   pause_discipline b (GetString (LimitCpu_Handle limitCpu)) t s (handleLimitCpu b limitCpu s) \<and>
   pause_discipline b (GetString (NetIn_Handle netIn)) t s (handleNetIn b netIn s) \<and>
   pause_discipline b (GetString (NetOut_Handle netOut)) t s (handleNetOut b netOut s) \<and>
   pause_discipline b (GetString (Info_Handle info)) t s (handleInfo b info s) \<and>
   pause_discipline b (GetString (Run_Handle rq)) t s (handleRun b rq s) \<and>
   pause_discipline b (GetString (Attach_Handle att)) t s (handleAttach b att s)"
  by (intro conjI handleStop_discipline handleCopyIn_discipline handleCopyOut_discipline
      handleLimitBandwidth_discipline handleLimitMemory_discipline handleLimitDisk_discipline
      handleLimitCpu_discipline handleNetIn_discipline handleNetOut_discipline
      handleInfo_discipline handleRun_discipline handleAttach_discipline)

theorem handlers_pause_discipline_witness:
  "fst (Lookup fixture_backend ''c1'' (backend_state panic_server)) = Ok ''c1'' \<and>
   handleStop fixture_backend
     \<lparr>Stop_Handle = Some ''c1'', Stop_Kill = None, Stop_Background = None\<rparr> panic_server =
     (Panicked,
      panic_server\<lparr>calls :=
        [Backend_Lookup ''c1'', Bomberman_Pause ''c1'', Container_Stop ''c1'' False,
         Bomberman_Unpause ''c1'']\<rparr>) \<and>
   pause_discipline fixture_backend ''c1'' Paused panic_server
     (handleStop fixture_backend
        \<lparr>Stop_Handle = Some ''c1'', Stop_Kill = None, Stop_Background = None\<rparr> panic_server) \<and>
   timer_after ''c1'' Paused
     [Backend_Lookup ''c1'', Bomberman_Pause ''c1'', Container_Stop ''c1'' False,
      Bomberman_Unpause ''c1''] = Running"
  using handlers_pause_discipline [where b = fixture_backend and s = panic_server and t = Paused
      and stop = "\<lparr>Stop_Handle = Some ''c1'', Stop_Kill = None, Stop_Background = None\<rparr>"]
  by (simp add: handleStop_def handler_steps Let_def fixture_backend_def panic_server_def
      fixture_server_def fixture_state_def GetString_def GetBool_def timer_after_def)

section \<open>Stop in the background\<close>

text \<open>
  C10. After a successful lookup, \<^verbatim>\<open>handleStop\<close> with the background flag set starts
  the container's \<^verbatim>\<open>Stop\<close> with a \<^verbatim>\<open>go\<close> statement and returns a
  \<^verbatim>\<open>StopResponse\<close> and no error, whatever the container's \<^verbatim>\<open>Stop\<close> would return:
  the handler does not run it and does not see its result. Without the flag the handler
  runs \<^verbatim>\<open>Stop\<close> itself and returns its error when it has one.
\<close>

theorem handleStop_background:
  assumes "Lookup b (GetString (Stop_Handle request)) (backend_state s) = (Ok container, st1)"
    and "Stop b container (GetBool (Stop_Kill request)) st1 = (r, st2)"
  shows "handleStop b request s =
     (if GetBool (Stop_Background request)
      then (Returned (Some StopResponse) None,
            s\<lparr>backend_state := st1,
              calls := calls s @
                [Backend_Lookup (GetString (Stop_Handle request)),
                 Bomberman_Pause (Handle b container),
                 Go_statement (Container_Stop (Handle b container) (GetBool (Stop_Kill request))),
                 Bomberman_Unpause (Handle b container)]\<rparr>)
      else (case r of
              Ok _ \<Rightarrow> Returned (Some StopResponse) None
            | Err e \<Rightarrow> Returned None (Some e)
            | Panic \<Rightarrow> Panicked,
            s\<lparr>backend_state := st2,
              calls := calls s @
                [Backend_Lookup (GetString (Stop_Handle request)),
                 Bomberman_Pause (Handle b container),
                 Container_Stop (Handle b container) (GetBool (Stop_Kill request)),
                 Bomberman_Unpause (Handle b container)]\<rparr>))"
  using assms
  by (cases r) (simp_all add: handleStop_def handler_steps Let_def)

theorem handleStop_background_witness:
  "handleStop fixture_backend
     \<lparr>Stop_Handle = Some ''c1'', Stop_Kill = Some True, Stop_Background = Some True\<rparr>
     fixture_server =
     (Returned (Some StopResponse) None,
      fixture_server\<lparr>calls :=
        [Backend_Lookup ''c1'', Bomberman_Pause ''c1'',
         Go_statement (Container_Stop ''c1'' True), Bomberman_Unpause ''c1'']\<rparr>) \<and>
   handleStop fixture_backend
     \<lparr>Stop_Handle = Some ''c1'', Stop_Kill = Some True, Stop_Background = None\<rparr>
     fixture_server =
     (Returned None (Some ''stop failed''),
      fixture_server\<lparr>calls :=
        [Backend_Lookup ''c1'', Bomberman_Pause ''c1'',
         Container_Stop ''c1'' True, Bomberman_Unpause ''c1'']\<rparr>)"
  using
    handleStop_background [of fixture_backend
      "\<lparr>Stop_Handle = Some ''c1'', Stop_Kill = Some True, Stop_Background = Some True\<rparr>"
      fixture_server "''c1''" fixture_state "Err ''stop failed''" fixture_state]
    handleStop_background [of fixture_backend
      "\<lparr>Stop_Handle = Some ''c1'', Stop_Kill = Some True, Stop_Background = None\<rparr>"
      fixture_server "''c1''" fixture_state "Err ''stop failed''" fixture_state]
  by (simp add: fixture_backend_def fixture_server_def fixture_state_def
      GetString_def GetBool_def)

section \<open>Resource limits\<close>

lemma last_present_3:
  "last_present [a, b, c] =
     (case c of Some v \<Rightarrow> v | None \<Rightarrow> (case b of Some v \<Rightarrow> v | None \<Rightarrow> GetUint64 a))"
  by (simp add: last_present_def GetUint64_def split: option.splits)

lemma limitDiskSettings_eq:
  "limitDiskSettings request =
     (\<lparr>BlockSoft = GetUint64 (LimitDisk_BlockSoft request),
       BlockHard = last_present
         [LimitDisk_BlockHard request, LimitDisk_Block request, LimitDisk_BlockLimit request],
       InodeSoft = GetUint64 (LimitDisk_InodeSoft request),
       InodeHard = last_present
         [LimitDisk_InodeHard request, LimitDisk_Inode request, LimitDisk_InodeLimit request],
       ByteSoft = GetUint64 (LimitDisk_ByteSoft request),
       ByteHard = last_present
         [LimitDisk_ByteHard request, LimitDisk_Byte request, LimitDisk_ByteLimit request]\<rparr>,
      any_present (limit_fields request))"
  unfolding last_present_3
  by (auto simp add: limitDiskSettings_def any_present_def limit_fields_def GetUint64_def
      split: option.splits)

text \<open>
  C3. After a successful lookup, when a disk-limit request holds any limit field,
  \<^verbatim>\<open>handleLimitDisk\<close> calls the container's \<^verbatim>\<open>LimitDisk\<close> exactly once, and the hard
  limits it passes are those of the last alias present in the order in which the
  handler applies them: \<open>BlockHard\<close>, \<open>Block\<close>, \<open>BlockLimit\<close> for the blocks,
  \<open>InodeHard\<close>, \<open>Inode\<close>, \<open>InodeLimit\<close> for the inodes, \<open>ByteHard\<close>, \<open>Byte\<close>,
  \<open>ByteLimit\<close> for the bytes. When the request holds no limit field, the handler does
  not call \<^verbatim>\<open>LimitDisk\<close>.
\<close>

theorem limit_disk_alias_precedence:
  assumes "Lookup b (GetString (LimitDisk_Handle request)) (backend_state s) = (Ok container, st1)"
  shows "LimitDisk_arguments (new_calls s (snd (handleLimitDisk b request s))) =
     (if any_present (limit_fields request)
      then [(Handle b container,
             \<lparr>BlockSoft = GetUint64 (LimitDisk_BlockSoft request),
              BlockHard = last_present
                [LimitDisk_BlockHard request, LimitDisk_Block request, LimitDisk_BlockLimit request],
              InodeSoft = GetUint64 (LimitDisk_InodeSoft request),
              InodeHard = last_present
                [LimitDisk_InodeHard request, LimitDisk_Inode request, LimitDisk_InodeLimit request],
              ByteSoft = GetUint64 (LimitDisk_ByteSoft request),
              ByteHard = last_present
                [LimitDisk_ByteHard request, LimitDisk_Byte request, LimitDisk_ByteLimit request]\<rparr>)]
      else [])"
  using assms
  by (simp add: handleLimitDisk_def limitDiskSettings_eq handler_steps new_calls_def
      split: prod.splits ret.splits)

theorem limit_disk_alias_precedence_witness:
  "LimitDisk_arguments (new_calls fixture_server (snd (handleLimitDisk fixture_backend
       (\<lparr>LimitDisk_Handle = Some ''c1'',
         LimitDisk_BlockSoft = None, LimitDisk_BlockHard = Some 3,
         LimitDisk_InodeSoft = None, LimitDisk_InodeHard = None,
         LimitDisk_ByteSoft = None, LimitDisk_ByteHard = Some 8,
         LimitDisk_Block = Some 5, LimitDisk_BlockLimit = Some 9,
         LimitDisk_Inode = Some 4, LimitDisk_InodeLimit = None,
         LimitDisk_Byte = None, LimitDisk_ByteLimit = None\<rparr>) fixture_server))) =
     [(''c1'', \<lparr>BlockSoft = 0, BlockHard = 9, InodeSoft = 0, InodeHard = 4,
               ByteSoft = 0, ByteHard = 8\<rparr>)]"
  using limit_disk_alias_precedence [of fixture_backend
      "\<lparr>LimitDisk_Handle = Some ''c1'',
         LimitDisk_BlockSoft = None, LimitDisk_BlockHard = Some 3,
         LimitDisk_InodeSoft = None, LimitDisk_InodeHard = None,
         LimitDisk_ByteSoft = None, LimitDisk_ByteHard = Some 8,
         LimitDisk_Block = Some 5, LimitDisk_BlockLimit = Some 9,
         LimitDisk_Inode = Some 4, LimitDisk_InodeLimit = None,
         LimitDisk_Byte = None, LimitDisk_ByteLimit = None\<rparr>"
      fixture_server "''c1''" fixture_state]
  by (simp add: fixture_backend_def fixture_server_def fixture_state_def GetString_def
      GetUint64_def last_present_def any_present_def limit_fields_def)

text \<open>
  The memory, CPU and disk handlers read the current limits without setting any when
  the request holds no limit field. The bandwidth handler has no such test: it always
  calls \<^verbatim>\<open>LimitBandwidth\<close>, with zero for an absent rate or burst.
\<close>

lemma handleLimitMemory_read_only:
  assumes "Lookup b (GetString (LimitMemory_Handle request)) (backend_state s) = (Ok container, st1)"
    and "CurrentMemoryLimits b container st1 = (Ok limits, st2)"
    and "LimitMemory_LimitInBytes request = None"
  shows "handleLimitMemory b request s =
     (Returned (Some (LimitMemoryResponseMsg
         \<lparr>LimitMemoryResponse_LimitInBytes = Some (LimitInBytes limits)\<rparr>)) None,
      s\<lparr>backend_state := st2,
        calls := calls s @
          [Backend_Lookup (GetString (LimitMemory_Handle request)),
           Bomberman_Pause (Handle b container),
           Container_CurrentMemoryLimits (Handle b container),
           Bomberman_Unpause (Handle b container)]\<rparr>)"
  using assms by (simp add: handleLimitMemory_def handler_steps Let_def)

lemma handleLimitCpu_read_only:
  assumes "Lookup b (GetString (LimitCpu_Handle request)) (backend_state s) = (Ok container, st1)"
    and "CurrentCPULimits b container st1 = (Ok limits, st2)"
    and "LimitCpu_LimitInShares request = None"
  shows "handleLimitCpu b request s =
     (Returned (Some (LimitCpuResponseMsg
         \<lparr>LimitCpuResponse_LimitInShares = Some (LimitInShares limits)\<rparr>)) None,
      s\<lparr>backend_state := st2,
        calls := calls s @
          [Backend_Lookup (GetString (LimitCpu_Handle request)),
           Bomberman_Pause (Handle b container),
           Container_CurrentCPULimits (Handle b container),
           Bomberman_Unpause (Handle b container)]\<rparr>)"
  using assms by (simp add: handleLimitCpu_def handler_steps Let_def)

lemma handleLimitDisk_read_only:
  assumes "Lookup b (GetString (LimitDisk_Handle request)) (backend_state s) = (Ok container, st1)"
    and "CurrentDiskLimits b container st1 = (Ok limits, st2)"
    and "\<not> any_present (limit_fields request)"
  shows "handleLimitDisk b request s =
     (Returned (Some (LimitDiskResponseMsg
         \<lparr>LimitDiskResponse_BlockSoft = Some (BlockSoft limits),
          LimitDiskResponse_BlockHard = Some (BlockHard limits),
          LimitDiskResponse_InodeSoft = Some (InodeSoft limits),
          LimitDiskResponse_InodeHard = Some (InodeHard limits),
          LimitDiskResponse_ByteSoft = Some (ByteSoft limits),
          LimitDiskResponse_ByteHard = Some (ByteHard limits)\<rparr>)) None,
      s\<lparr>backend_state := st2,
        calls := calls s @
          [Backend_Lookup (GetString (LimitDisk_Handle request)),
           Bomberman_Pause (Handle b container),
           Container_CurrentDiskLimits (Handle b container),
           Bomberman_Unpause (Handle b container)]\<rparr>)"
  using assms by (simp add: handleLimitDisk_def limitDiskSettings_eq handler_steps Let_def)

lemma handleLimitBandwidth_always_sets:
  assumes "Lookup b (GetString (LimitBandwidth_Handle request)) (backend_state s) = (Ok container, st1)"
  shows "take 3 (new_calls s (snd (handleLimitBandwidth b request s))) =
     [Backend_Lookup (GetString (LimitBandwidth_Handle request)),
      Bomberman_Pause (Handle b container),
      Container_LimitBandwidth (Handle b container)
        \<lparr>RateInBytesPerSecond = GetUint64 (LimitBandwidth_Rate request),
         BurstRateInBytesPerSecond = GetUint64 (LimitBandwidth_Burst request)\<rparr>]"
  using assms
  by (simp add: handleLimitBandwidth_def handler_steps Let_def new_calls_def
      split: prod.splits ret.splits)

text \<open>
  C2 does not hold for the bandwidth operation. A bandwidth request with neither rate
  nor burst, on a container whose limits are 100 and 200, makes the handler call
  \<^verbatim>\<open>LimitBandwidth\<close> with rate 0 and burst 0; the limits it then reads and returns are
  0 and 0.
\<close>

theorem limit_bandwidth_without_fields_sets_limits:
  "handleLimitBandwidth fixture_backend
     \<lparr>LimitBandwidth_Handle = Some ''c1'', LimitBandwidth_Rate = None,
      LimitBandwidth_Burst = None\<rparr> fixture_server =
     (Returned (Some (LimitBandwidthResponseMsg
         \<lparr>LimitBandwidthResponse_Rate = Some 0, LimitBandwidthResponse_Burst = Some 0\<rparr>)) None,
      fixture_server
        \<lparr>backend_state := fixture_state
           \<lparr>bandwidth := \<lparr>RateInBytesPerSecond = 0, BurstRateInBytesPerSecond = 0\<rparr>\<rparr>,
         calls :=
           [Backend_Lookup ''c1'', Bomberman_Pause ''c1'',
            Container_LimitBandwidth ''c1''
              \<lparr>RateInBytesPerSecond = 0, BurstRateInBytesPerSecond = 0\<rparr>,
            Container_CurrentBandwidthLimits ''c1'', Bomberman_Unpause ''c1'']\<rparr>)"
  by (simp add: handleLimitBandwidth_def handler_steps Let_def fixture_backend_def
      fixture_server_def fixture_state_def GetString_def GetUint64_def)

section \<open>Container info from the server to the client\<close>

text \<open>
  The message codec is taken to deliver the response as the server built it.
\<close>

lemma ucast_32_64_32: "(ucast (ucast (x :: uint32) :: uint64) :: uint32) = x"
  by (simp add: ucast_up_ucast_id is_up)

lemma properties_foldl:
  "foldl (\<lambda>properties prop. properties(GetString (Key prop) \<mapsto> GetString (Value prop))) m
     (map (\<lambda>(key, val). \<lparr>Key = Some key, Value = Some val\<rparr>) props) =
   m ++ map_of (rev props)"
  by (induction props arbitrary: m) (auto simp add: GetString_def)

lemma map_of_rev_distinct_keys:
  "distinct (map fst xs) \<Longrightarrow> map_of (rev xs) = map_of xs"
proof (induction xs)
  case Nil
  show ?case by simp
next
  case (Cons kv xs)
  obtain k v where kv: "kv = (k, v)"
    by (cases kv)
  from Cons.prems kv have fresh: "map_of xs k = None"
    by (simp add: map_of_eq_None_iff)
  from Cons have "map_of (rev xs) = map_of xs"
    by simp
  then show ?case
    using fresh kv by (auto simp add: map_add_def fun_eq_iff split: option.splits)
qed

lemma stat_blocks_round_trip:
  "containerInfo (infoResponse info props) =
     \<lparr>State = State info, Events = Events info, HostIP = HostIP info,
      ContainerIP = ContainerIP info, ExternalIP = [],
      ContainerPath = ContainerPath info, ProcessIDs = ProcessIDs info,
      Properties = map_of (rev props),
      BandwidthStat = BandwidthStat info, CPUStat = CPUStat info,
      DiskStat = DiskStat info, MemoryStat = MemoryStat info,
      MappedPorts = []\<rparr>"
proof -
  have bandwidth: "\<lparr>InRate = InRate x, InBurst = InBurst x, OutRate = OutRate x,
      OutBurst = OutBurst x\<rparr> = x" for x
    by (cases x) simp
  have cpu: "\<lparr>Usage = Usage x, User = User x, System = System x\<rparr> = x" for x
    by (cases x) simp
  have disk: "\<lparr>BytesUsed = BytesUsed x, InodesUsed = InodesUsed x\<rparr> = x" for x
    by (cases x) simp
  have memory: "\<lparr>Cache = Cache x,
      Rss = Rss x,
      MappedFile = MappedFile x,
      Pgpgin = Pgpgin x,
      Pgpgout = Pgpgout x,
      Swap = Swap x,
      Pgfault = Pgfault x,
      Pgmajfault = Pgmajfault x,
      InactiveAnon = InactiveAnon x,
      ActiveAnon = ActiveAnon x,
      InactiveFile = InactiveFile x,
      ActiveFile = ActiveFile x,
      Unevictable = Unevictable x,
      HierarchicalMemoryLimit = HierarchicalMemoryLimit x,
      HierarchicalMemswLimit = HierarchicalMemswLimit x,
      TotalCache = TotalCache x,
      TotalRss = TotalRss x,
      TotalMappedFile = TotalMappedFile x,
      TotalPgpgin = TotalPgpgin x,
      TotalPgpgout = TotalPgpgout x,
      TotalSwap = TotalSwap x,
      TotalPgfault = TotalPgfault x,
      TotalPgmajfault = TotalPgmajfault x,
      TotalInactiveAnon = TotalInactiveAnon x,
      TotalActiveAnon = TotalActiveAnon x,
      TotalInactiveFile = TotalInactiveFile x,
      TotalActiveFile = TotalActiveFile x,
      TotalUnevictable = TotalUnevictable x\<rparr> = x" for x
    by (cases x) simp
  have get_string: "GetString (Some v) = v" "GetString None = []" for v
    by (simp_all add: GetString_def)
  have get_uint64: "GetUint64Of field (Some m) = GetUint64 (field m)" "GetUint64 (Some w) = w"
    for field :: "'m \<Rightarrow> uint64 option" and m w
    by (simp_all add: GetUint64Of_def GetUint64_def)
  show ?thesis
    by (simp add: containerInfo_def infoResponse_def Let_def get_string get_uint64
        properties_foldl o_def ucast_32_64_32 bandwidth cpu disk memory)
qed

text \<open>
  C5, as amended. Encoding a container info in \<^verbatim>\<open>handleInfo\<close> and decoding the response
  in the client's \<^verbatim>\<open>Info\<close> gives back the state, the events, the host and container IP,
  the container path, the process IDs and the four stat blocks of the original, field
  for field. The properties of the result are those of \<^verbatim>\<open>container.Properties()\<close>, as
  a mapping with one value per key. The server's response carries neither the external
  IP nor the mapped ports: the result has the empty string and the empty list there.
\<close>

theorem info_round_trip:
  assumes "distinct (map fst props)"
  shows "containerInfo (infoResponse info props) =
     info\<lparr>ExternalIP := [], Properties := map_of props, MappedPorts := []\<rparr>"
proof -
  have "map_of (rev props) = map_of props"
    using assms by (rule map_of_rev_distinct_keys)
  then show ?thesis
    by (cases info) (simp add: stat_blocks_round_trip)
qed

theorem info_round_trip_witness:
  "distinct (map fst [(''owner'', ''alice'')]) \<and>
   containerInfo (infoResponse example_info [(''owner'', ''alice'')]) =
     example_info\<lparr>ExternalIP := [], Properties := map_of [(''owner'', ''alice'')],
       MappedPorts := []\<rparr>"
  using info_round_trip [of "[(''owner'', ''alice'')]" example_info]
  by simp

text \<open>
  C5 as stated fails: a container info with a mapped port and an external IP does not
  come back equal.
\<close>

theorem info_round_trip_loses_mapped_ports:
  "containerInfo (infoResponse example_info [(''owner'', ''alice'')]) \<noteq> example_info"
proof
  assume "containerInfo (infoResponse example_info [(''owner'', ''alice'')]) = example_info"
  then have "MappedPorts (containerInfo (infoResponse example_info [(''owner'', ''alice'')])) =
      MappedPorts example_info"
    by simp
  then show False
    by (simp add: stat_blocks_round_trip example_info_def)
qed

section \<open>The status of the HTTP response\<close>

text \<open>
  C7, as amended. When the request could be created and sent, a stream call
  (\<^verbatim>\<open>doStream\<close>) and a unary call (\<^verbatim>\<open>do\<close>) fail on every status outside 200 to 299.
  When the error body can be read to its end, the error is the structured \<open>Error\<close> with
  the status code and the whole body as its message; when reading the body fails, the
  error is the plain error \<^verbatim>\<open>bad response\<close> with the status line instead. On a status
  within 200 to 299 the stream call returns the body and the unary call decodes it:
  neither returns the structured \<open>Error\<close>.
\<close>

theorem status_outside_2xx:
  "(req_CreateRequest c handler params body = Inr request \<and>
    noKeepaliveClient_Do c (with_header_and_query c query contentType request) = Inr httpResp \<longrightarrow>
      doStream c handler body params query contentType =
        (if StatusCode httpResp < 200 \<or> 299 < StatusCode httpResp
         then (case Body_read_error (Body httpResp) of
                 None \<Rightarrow> Inl (Error (StatusCode httpResp) (Body_bytes (Body httpResp)))
               | Some e \<Rightarrow> Inl (Errorf (''bad response: '' @ Status httpResp)))
         else Inr (Body httpResp))) \<and>
   (request_body WriteMessage req = Inr body' \<and>
    req_CreateRequest c handler params body' = Inr request' \<and>
    noKeepaliveClient_Do c
      (with_header_and_query c query (if req \<noteq> None then ''application/json'' else []) request') =
      Inr httpResp' \<longrightarrow>
      do c WriteMessage Decode handler req params query =
        (if StatusCode httpResp' < 200 \<or> 299 < StatusCode httpResp'
         then (case Body_read_error (Body httpResp') of
                 None \<Rightarrow> Inl (Error (StatusCode httpResp') (Body_bytes (Body httpResp')))
               | Some e \<Rightarrow> Inl (Errorf (''bad response: '' @ Status httpResp')))
         else (case Decode (Body httpResp') of
                 Inl e \<Rightarrow> Inl (LibraryError e)
               | Inr res \<Rightarrow> Inr res)))"
  by (simp add: doStream_def do_def ReadAll_def Let_def split: option.splits)

theorem status_outside_2xx_witness:
  "doStream (fixture_connection not_found_response) ''Destroy'' None [(''handle'', ''missing'')]
     None [] = Inl (Error 404 ''unknown handle: missing'') \<and>
   doStream (fixture_connection ok_response) ''Ping'' None [] None [] =
     Inr \<lparr>Body_bytes = ''{}'', Body_read_error = None\<rparr> \<and>
   do (fixture_connection not_found_response) (\<lambda>u :: unit. Inr []) (\<lambda>body. Inr ())
     ''Destroy'' None [(''handle'', ''missing'')] None =
     Inl (Error 404 ''unknown handle: missing'')"
  using
    status_outside_2xx [of "fixture_connection not_found_response" "''Destroy''"
      "[(''handle'', ''missing'')]" None
      "\<lparr>Request_Handler = ''Destroy'', Request_Params = [(''handle'', ''missing'')],
        Request_Body = None, Header_ContentType = [], URL_RawQuery = []\<rparr>"
      None "[]" not_found_response
      "\<lambda>u :: unit. Inr []" None None
      "\<lparr>Request_Handler = ''Destroy'', Request_Params = [(''handle'', ''missing'')],
        Request_Body = None, Header_ContentType = [], URL_RawQuery = []\<rparr>"
      not_found_response "\<lambda>body. Inr ()"]
    status_outside_2xx [of "fixture_connection ok_response" "''Ping''" "[]" None
      "\<lparr>Request_Handler = ''Ping'', Request_Params = [],
        Request_Body = None, Header_ContentType = [], URL_RawQuery = []\<rparr>"
      None "[]" ok_response
      "\<lambda>u :: unit. Inr []" None None
      "\<lparr>Request_Handler = ''Ping'', Request_Params = [],
        Request_Body = None, Header_ContentType = [], URL_RawQuery = []\<rparr>"
      ok_response "\<lambda>body. Inr ()"]
  by (simp add: fixture_connection_def not_found_response_def ok_response_def
      with_header_and_query_def request_body_def)

text \<open>
  C7 as stated fails: on status 500 with a body that cannot be read, the call returns
  the plain error, not the structured one.
\<close>

theorem unreadable_error_body:
  "StatusCode broken_response = 500 \<and>
   doStream (fixture_connection broken_response) ''Info'' None [(''handle'', ''c1'')] None [] =
     Inl (Errorf ''bad response: 500 Internal Server Error'')"
  by (simp add: doStream_def fixture_connection_def broken_response_def
      with_header_and_query_def ReadAll_def)

text \<open>
  \<^verbatim>\<open>Destroy\<close> never returns \<^verbatim>\<open>garden.ContainerNotFoundError\<close>, although the comment of
  the interface says it does when the container cannot be found.
\<close>

lemma Destroy_never_ContainerNotFoundError:
  "Destroy c WriteMessage Decode handle \<noteq> Some (ContainerNotFoundError h)"
  by (auto simp add: Destroy_def do_def doStream_def request_body_def Let_def
      split: sum.splits option.splits if_splits)

text \<open>
  C8 does not hold in the connection. When the server answers status 404 with the
  message of an unknown handle, \<^verbatim>\<open>Destroy\<close> returns the structured \<open>Error\<close> with the
  code 404, as it does for every other status outside 200 to 299.
\<close>

theorem Destroy_unknown_handle:
  "Destroy (fixture_connection not_found_response) (\<lambda>u. Inr []) (\<lambda>body. Inr ()) ''missing'' =
     Some (Error 404 ''unknown handle: missing'')"
  by (simp add: Destroy_def do_def doStream_def request_body_def fixture_connection_def
      not_found_response_def with_header_and_query_def ReadAll_def)

section \<open>The join barrier of the stream handler\<close>

lemma pending_update:
  assumes "i < length ts"
  shows "pending (ts[i := t']) + (if task_pc (ts ! i) \<noteq> Exited then 1 else 0) =
     pending ts + (if task_pc t' \<noteq> Exited then 1 else 0)"
proof -
  have "pending ts = pending (take i ts @ ts ! i # drop (Suc i) ts)"
    using assms by (simp add: id_take_nth_drop [symmetric])
  moreover have "pending (ts[i := t']) = pending (take i ts @ t' # drop (Suc i) ts)"
    using assms by (simp add: upd_conv_take_nth_drop)
  ultimately show ?thesis
    by (simp add: pending_def)
qed

lemma pending_positive:
  assumes "i < length ts" and "task_pc (ts ! i) \<noteq> Exited"
  shows "0 < pending ts"
proof -
  from assms have "ts ! i \<in> set (filter (\<lambda>t. task_pc t \<noteq> Exited) ts)"
    by simp
  then have "filter (\<lambda>t. task_pc t \<noteq> Exited) ts \<noteq> []"
    by (metis empty_iff empty_set)
  then show ?thesis
    by (simp add: pending_def)
qed

lemma pending_zero: "pending ts = 0 \<Longrightarrow> t \<in> set ts \<Longrightarrow> task_pc t = Exited"
  unfolding pending_def by (auto simp add: filter_empty_conv)

lemma wait_step_invariant:
  assumes "wg_invariant sh" and "wait_step sh = Some sh'"
  shows "wg_invariant sh'"
  using assms
  by (auto simp add: wg_invariant_def wait_step_def
      split: wait_pc.splits list.splits sum.splits option.splits if_splits)

lemma copyStream_step_invariant:
  assumes inv: "wg_invariant sh" and stepped: "copyStream_step i sh = Some sh'"
  shows "wg_invariant sh'"
proof -
  from stepped have i: "i < length (copiers sh)"
    by (simp add: copyStream_step_def split: if_splits)
  define t where "t = copiers sh ! i"
  from stepped i have live: "task_pc t \<noteq> Exited"
    by (auto simp add: copyStream_step_def t_def Let_def split: copy_pc.splits)
  have pos: "0 < pending (copiers sh)"
    using i live unfolding t_def by (rule pending_positive)
  with inv have not_returned: "\<And>status e. waiter sh \<noteq> WaitReturned status e"
    by (auto simp add: wg_invariant_def)
  show ?thesis
  proof (cases "task_pc t")
    case AtCopy
    with stepped i have sh': "sh' = sh\<lparr>copiers := (copiers sh)[i := t\<lparr>task_pc := AtDone\<rparr>],
        copied := copied sh @ [(task_target t, task_source t)]\<rparr>"
      by (simp add: copyStream_step_def t_def Let_def)
    have "pending ((copiers sh)[i := t\<lparr>task_pc := AtDone\<rparr>]) = pending (copiers sh)"
      using pending_update [OF i, of "t\<lparr>task_pc := AtDone\<rparr>"] live by (simp add: t_def)
    moreover have "\<forall>u \<in> set ((copiers sh)[i := t\<lparr>task_pc := AtDone\<rparr>]).
        task_pc u \<noteq> AtCopy \<longrightarrow>
          (task_target u, task_source u) \<in> set (copied sh @ [(task_target t, task_source t)])"
    proof
      fix u
      assume "u \<in> set ((copiers sh)[i := t\<lparr>task_pc := AtDone\<rparr>])"
      then have "u = t\<lparr>task_pc := AtDone\<rparr> \<or> u \<in> set (copiers sh)"
        using set_update_subset_insert by fastforce
      then show "task_pc u \<noteq> AtCopy \<longrightarrow>
          (task_target u, task_source u) \<in> set (copied sh @ [(task_target t, task_source t)])"
        using inv by (auto simp add: wg_invariant_def)
    qed
    ultimately show ?thesis
      using inv not_returned by (auto simp add: wg_invariant_def sh' split: wait_pc.splits)
  next
    case AtDone
    with stepped i have sh': "sh' = sh\<lparr>copiers := (copiers sh)[i := t\<lparr>task_pc := Exited\<rparr>],
        wg := wg sh - 1\<rparr>"
      by (simp add: copyStream_step_def t_def Let_def)
    have "pending ((copiers sh)[i := t\<lparr>task_pc := Exited\<rparr>]) + 1 = pending (copiers sh)"
      using pending_update [OF i, of "t\<lparr>task_pc := Exited\<rparr>"] live by (simp add: t_def)
    then have count: "int (pending ((copiers sh)[i := t\<lparr>task_pc := Exited\<rparr>])) =
        int (pending (copiers sh)) - 1"
      by linarith
    have "t \<in> set (copiers sh)"
      using i by (simp add: t_def)
    with inv AtDone have delivered: "(task_target t, task_source t) \<in> set (copied sh)"
      by (auto simp add: wg_invariant_def)
    have "\<forall>u \<in> set ((copiers sh)[i := t\<lparr>task_pc := Exited\<rparr>]).
        task_pc u \<noteq> AtCopy \<longrightarrow> (task_target u, task_source u) \<in> set (copied sh)"
    proof
      fix u
      assume "u \<in> set ((copiers sh)[i := t\<lparr>task_pc := Exited\<rparr>])"
      then have "u = t\<lparr>task_pc := Exited\<rparr> \<or> u \<in> set (copiers sh)"
        using set_update_subset_insert by fastforce
      then show "task_pc u \<noteq> AtCopy \<longrightarrow> (task_target u, task_source u) \<in> set (copied sh)"
        using inv delivered by (auto simp add: wg_invariant_def)
    qed
    then show ?thesis
      using inv not_returned count by (auto simp add: wg_invariant_def sh' split: wait_pc.splits)
  next
    case Exited
    with live show ?thesis by simp
  qed
qed

lemma step_invariant: "wg_invariant sh \<Longrightarrow> wg_invariant (schedule_step p sh)"
  by (auto simp add: schedule_step_def split: pick.splits option.splits
      intro: wait_step_invariant copyStream_step_invariant)

lemma run_invariant: "wg_invariant sh \<Longrightarrow> wg_invariant (run_schedule schedule sh)"
  unfolding run_schedule_def
  by (induction schedule arbitrary: sh) (simp_all add: step_invariant)

lemma streamOut_invariant:
  assumes "wg_invariant sh" and "waiter sh = NotStarted"
  shows "wg_invariant (snd (streamOut hijack streamID streamType streamWriter sh)) \<and>
    waiter (snd (streamOut hijack streamID streamType streamWriter sh)) = NotStarted"
  using assms
  by (auto simp add: wg_invariant_def streamOut_def attach_def pending_def
      split: option.splits sum.splits prod.splits)

lemma streamOuts_invariant:
  "wg_invariant sh \<Longrightarrow> waiter sh = NotStarted \<Longrightarrow>
     wg_invariant (streamOuts hijack streamID outs sh) \<and>
     waiter (streamOuts hijack streamID outs sh) = NotStarted"
  unfolding streamOuts_def
proof (induction outs arbitrary: sh)
  case Nil
  then show ?case by simp
next
  case (Cons out outs)
  obtain streamType streamWriter where out: "out = (streamType, streamWriter)"
    by (cases out)
  from Cons.prems streamOut_invariant [of sh hijack streamID streamType streamWriter]
  show ?case
    by (simp add: out Cons.IH)
qed

lemma wait_invariant: "wg_invariant sh \<Longrightarrow> waiter sh = NotStarted \<Longrightarrow> wg_invariant (wait decoder sh)"
  by (simp add: wg_invariant_def wait_def)

lemma wait_step_registered: "wait_step sh = Some sh' \<Longrightarrow> registered sh' = registered sh"
  by (auto simp add: registered_def wait_step_def
      split: wait_pc.splits list.splits sum.splits option.splits if_splits)

lemma copyStream_step_registered:
  assumes "copyStream_step i sh = Some sh'"
  shows "registered sh' = registered sh"
proof -
  from assms have i: "i < length (copiers sh)"
    by (simp add: copyStream_step_def split: if_splits)
  have same: "(map (\<lambda>t. (task_target t, task_source t)) xs)
      [i := (task_target (xs ! i), task_source (xs ! i))] =
      map (\<lambda>t. (task_target t, task_source t)) xs" if "i < length xs" for xs
    using that by (simp add: list_update_same_conv)
  from assms i show ?thesis
    by (auto simp add: registered_def copyStream_step_def Let_def map_update same
        split: copy_pc.splits)
qed

lemma step_registered: "registered (schedule_step p sh) = registered sh"
  by (cases p)
    (simp_all add: schedule_step_def wait_step_registered copyStream_step_registered
      split: option.splits)

lemma run_registered: "registered (run_schedule schedule sh) = registered sh"
  unfolding run_schedule_def
  by (induction schedule arbitrary: sh) (simp_all add: step_registered)

lemma wait_blocked: "waiter sh = AtWait status e \<Longrightarrow> wg sh \<noteq> 0 \<Longrightarrow> schedule_step Waiter sh = sh"
  by (simp add: schedule_step_def wait_step_def)

lemma wait_blocks_until_done:
  "run_schedule [Waiter, Waiter, Waiter, Copier 0, Waiter] fixture_session =
     \<lparr>wg = 1,
      copiers = [\<lparr>task_target = ''out.log'', task_source = ''hello'', task_pc = AtDone\<rparr>],
      copied = [(''out.log'', ''hello'')], waiter = AtWait 3 None\<rparr>"
  by code_simp

lemma fixture_run:
  "run_schedule [Waiter, Waiter, Waiter, Copier 0, Waiter, Copier 0, Waiter] fixture_session =
     \<lparr>wg = 0,
      copiers = [\<lparr>task_target = ''out.log'', task_source = ''hello'', task_pc = Exited\<rparr>],
      copied = [(''out.log'', ''hello'')], waiter = WaitReturned 3 None\<rparr>"
  by code_simp

text \<open>
  C1. In a session whose output streams were attached before \<^verbatim>\<open>wait\<close> was called,
  under every schedule of \<^verbatim>\<open>wait\<close> and the copy goroutines: when \<^verbatim>\<open>wait\<close> has
  returned, on any of its three branches (decode failure, error frame, exit-status
  frame), every registered copy goroutine has returned from its \<^verbatim>\<open>io.Copy\<close>, so the
  copy to its target is complete, and has called \<^verbatim>\<open>sh.wg.Done()\<close>; the counter of
  the wait group is zero; and the registered streams are those that were attached.
\<close>

theorem wait_returns_after_copies:
  assumes "waiter (run_schedule schedule (wait decoder (streamOuts hijack streamID outs newStreamHandler))) =
      WaitReturned status e"
  shows "(\<forall>t \<in> set (copiers (run_schedule schedule
              (wait decoder (streamOuts hijack streamID outs newStreamHandler)))).
            task_pc t = Exited \<and>
            (task_target t, task_source t) \<in> set (copied (run_schedule schedule
              (wait decoder (streamOuts hijack streamID outs newStreamHandler))))) \<and>
         wg (run_schedule schedule (wait decoder (streamOuts hijack streamID outs newStreamHandler))) = 0 \<and>
         registered (run_schedule schedule (wait decoder (streamOuts hijack streamID outs newStreamHandler))) =
           registered (streamOuts hijack streamID outs newStreamHandler)"
proof -
  define sh0 where "sh0 = streamOuts hijack streamID outs newStreamHandler"
  define final where "final = run_schedule schedule (wait decoder sh0)"
  have "wg_invariant newStreamHandler" "waiter newStreamHandler = NotStarted"
    by (simp_all add: wg_invariant_def newStreamHandler_def pending_def)
  then have "wg_invariant sh0 \<and> waiter sh0 = NotStarted"
    unfolding sh0_def by (rule streamOuts_invariant)
  then have "wg_invariant (wait decoder sh0)"
    by (simp add: wait_invariant)
  then have inv: "wg_invariant final"
    unfolding final_def by (rule run_invariant)
  from assms have returned: "waiter final = WaitReturned status e"
    by (simp add: final_def sh0_def)
  with inv have zero: "pending (copiers final) = 0"
    by (simp add: wg_invariant_def)
  have "\<forall>t \<in> set (copiers final).
      task_pc t = Exited \<and> (task_target t, task_source t) \<in> set (copied final)"
  proof
    fix t
    assume t: "t \<in> set (copiers final)"
    with zero have "task_pc t = Exited"
      by (rule pending_zero)
    with inv t show "task_pc t = Exited \<and> (task_target t, task_source t) \<in> set (copied final)"
      by (auto simp add: wg_invariant_def)
  qed
  moreover from inv zero have "wg final = 0"
    by (simp add: wg_invariant_def)
  moreover have "registered final = registered sh0"
  proof -
    have "registered (wait decoder sh0) = registered sh0"
      by (simp add: registered_def wait_def)
    then show ?thesis
      by (simp add: final_def run_registered)
  qed
  ultimately show ?thesis
    by (simp add: final_def sh0_def)
qed

theorem wait_returns_after_copies_witness:
  "waiter (run_schedule [Waiter, Waiter, Waiter, Copier 0, Waiter, Copier 0, Waiter] fixture_session) =
     WaitReturned 3 None \<and>
   copiers (run_schedule [Waiter, Waiter, Waiter, Copier 0, Waiter, Copier 0, Waiter] fixture_session) =
     [\<lparr>task_target = ''out.log'', task_source = ''hello'', task_pc = Exited\<rparr>] \<and>
   copied (run_schedule [Waiter, Waiter, Waiter, Copier 0, Waiter, Copier 0, Waiter] fixture_session) =
     [(''out.log'', ''hello'')] \<and>
   wg (run_schedule [Waiter, Waiter, Waiter, Copier 0, Waiter, Copier 0, Waiter] fixture_session) = 0"
  using wait_returns_after_copies [of "[Waiter, Waiter, Waiter, Copier 0, Waiter, Copier 0, Waiter]"
      fixture_decoder fixture_hijack 7
      "[(''stdout'', Some ''out.log''), (''stderr'', Some ''err.log''), (''stdout'', None)]"
      3 None, folded fixture_session_def]
  by (simp add: fixture_run)

end
